theory Spec2Isabelle
  imports Complex_Main
begin

section \<open>The dlib-to-caffe converter (tools/convert\_dlib\_nets\_to\_caffe/main.cpp)\<close>

text \<open>
  A shallow embedding of the converter. The C++ \<^verbatim>\<open>double\<close> values (attribute
  values and matrix entries) are modelled by \<^typ>\<open>real\<close>: the converter only compares
  them with zero, truncates them to \<^verbatim>\<open>long\<close> and copies them. \<^verbatim>\<open>int\<close> and
  \<^verbatim>\<open>long\<close> are modelled by \<^typ>\<open>int\<close>; their range is left out. Every
  \<^verbatim>\<open>throw\<close> is a value of the type \<open>error\<close>.
\<close>

subsection \<open>Errors\<close>

datatype error =
    Error string                  \<comment> \<open>\<^verbatim>\<open>dlib::error(msg)\<close>\<close>
  | String_cast_error string      \<comment> \<open>thrown by the \<^verbatim>\<open>sa =\<close> string cast on the given text\<close>
  | Xml_attribute_list_error string \<comment> \<open>\<^verbatim>\<open>atts[key]\<close> on a key that is not in the tag\<close>
  | Requirement_violated string   \<comment> \<open>a library function called outside its \<^verbatim>\<open>requires\<close> clause\<close>

subsection \<open>Matrices\<close>

text \<open>
  Modelled from the spec: dlib's matrix library (\<^verbatim>\<open>dlib/matrix.h\<close>) is not among the
  sources. A \<^verbatim>\<open>matrix<double>\<close> is a rectangular array (the spec's ``2-D numeric
  tensor (rows x cols)''), modelled as the list of its rows.
\<close>

type_synonym matrix = "real list list"

text \<open>Modelled from the spec: \<^verbatim>\<open>nr()\<close>, the number of rows of a matrix.\<close>

definition nr :: "matrix \<Rightarrow> nat" where
  "nr m = length m"

text \<open>Modelled from the spec: \<^verbatim>\<open>nc()\<close>, the number of columns of a matrix; the empty
  matrix has none.\<close>

definition nc :: "matrix \<Rightarrow> nat" where
  "nc m = (case m of [] \<Rightarrow> 0 | r # _ \<Rightarrow> length r)"

text \<open>Modelled from the spec: \<^verbatim>\<open>size()\<close>, the number of elements of a matrix,
  \<^verbatim>\<open>nr()*nc()\<close>.\<close>

definition msize :: "matrix \<Rightarrow> nat" where
  "msize m = nr m * nc m"

text \<open>Every row of a matrix has \<open>nc\<close> entries; a list of rows that stands for a matrix
  satisfies this.\<close>

definition rectangular :: "matrix \<Rightarrow> bool" where
  "rectangular m = list_all (\<lambda>r. length r = nc m) m"

subsection \<open>Layer records\<close>

record layer =
  type :: string
  idx :: int
  detail_name :: string
  attributes :: "string \<rightharpoonup> real"
  params :: matrix
  tag_id :: int
  skip_id :: int

text \<open>The value of \<^verbatim>\<open>layer()\<close>: empty strings and containers, \<open>idx\<close> zero-initialised,
  both ids at the \<open>-1\<close> sentinel.\<close>

definition new_layer :: layer where
  "new_layer = \<lparr>type = [], idx = 0, detail_name = [], attributes = Map.empty,
                params = [], tag_id = -1, skip_id = -1\<rparr>"

definition quote :: string where
  "quote = [CHR 0x27]"

definition attribute :: "layer \<Rightarrow> string \<Rightarrow> error + real" where
  "attribute l key =
     (case attributes l key of
        Some v \<Rightarrow> Inr v
      | None \<Rightarrow> Inl (Error (''Layer doesn't have the requested attribute '' @ quote @ key @ quote @ ''.'')))"

text \<open>\<^verbatim>\<open>std::to_string\<close> on an \<^verbatim>\<open>int\<close>: the decimal digits, with a minus sign
  for a negative number.\<close>

fun nat_digits :: "nat \<Rightarrow> string" where
  "nat_digits n =
     (if n < 10 then [''0123456789'' ! n]
      else nat_digits (n div 10) @ [''0123456789'' ! (n mod 10)])"

declare nat_digits.simps [simp del]

definition to_string :: "int \<Rightarrow> string" where
  "to_string i = (if i < 0 then CHR ''-'' # nat_digits (nat (- i)) else nat_digits (nat i))"

definition caffe_layer_name :: "layer \<Rightarrow> string" where
  "caffe_layer_name l =
     (if type l = ''input'' then ''data'' else detail_name l @ to_string (idx l))"

subsection \<open>The reference resolver\<close>

text \<open>
  The converter walks the layer vector with reverse iterators. In the model \<open>rs\<close> is the
  vector as the reverse iterators traverse it (\<open>rs = rev layers\<close>, the input layer
  first), and an iterator is its distance \<open>i\<close> from \<^verbatim>\<open>rbegin()\<close>, so that \<^verbatim>\<open>*i\<close> is
  \<open>rs ! i\<close>. Moving an iterator out of the vector is undefined behaviour in C++ and an
  error in the model.
\<close>

definition skip_error :: error where
  "skip_error = Error ''Network definition is bad, a layer wanted to skip back to a non-existing layer.''"

definition deref :: "layer list \<Rightarrow> nat \<Rightarrow> error + layer" where
  "deref rs i = (if i < length rs then Inr (rs ! i) else Inl (Requirement_violated ''iterator''))"

text \<open>The \<^verbatim>\<open>while(true)\<close> loop of \<^verbatim>\<open>find_layer_caffe_name\<close>, for a tag id other than \<open>-1\<close>.\<close>

fun find_tagged :: "layer list \<Rightarrow> nat \<Rightarrow> int \<Rightarrow> error + string" where
  "find_tagged rs 0 t = Inl (Requirement_violated ''iterator'')"
| "find_tagged rs (Suc i) t =
     (case deref rs i of
        Inl e \<Rightarrow> Inl e
      | Inr l \<Rightarrow>
          if tag_id l = t then Inr (caffe_layer_name l)
          else if type l = ''input'' then Inl skip_error
          else find_tagged rs i t)"

definition find_layer_caffe_name :: "layer list \<Rightarrow> nat \<Rightarrow> int \<Rightarrow> error + string" where
  "find_layer_caffe_name rs i t =
     (if t = -1 then
        (case i of
           0 \<Rightarrow> Inl (Requirement_violated ''iterator'')
         | Suc j \<Rightarrow> (case deref rs j of Inl e \<Rightarrow> Inl e | Inr l \<Rightarrow> Inr (caffe_layer_name l)))
      else find_tagged rs i t)"

definition find_input_layer_caffe_name :: "layer list \<Rightarrow> nat \<Rightarrow> error + string" where
  "find_input_layer_caffe_name rs i =
     (case deref rs i of Inl e \<Rightarrow> Inl e | Inr l \<Rightarrow> find_layer_caffe_name rs i (skip_id l))"

text \<open>The reverse iterator that points at the record stored at position \<open>k\<close> of the vector.\<close>

definition riter :: "layer list \<Rightarrow> nat \<Rightarrow> nat" where
  "riter ls k = length ls - 1 - k"

subsection \<open>The graph builder: \<^verbatim>\<open>doc_handler\<close> and \<^verbatim>\<open>parse_dlib_xml\<close>\<close>

text \<open>
  The XML tokenizer (\<^verbatim>\<open>dlib/xml_parser.h\<close>) and the string casts (\<^verbatim>\<open>dlib/string.h\<close>)
  are not among the sources. A document is the list of events that the tokenizer hands
  to the handler (a document that the tokenizer itself rejects is left out), and the
  casts are parameters of the model: \<open>cast_int\<close>, \<open>cast_long\<close>
  and \<open>cast_double\<close> are the \<^verbatim>\<open>sa =\<close> assignments to an \<^verbatim>\<open>int\<close>, a \<^verbatim>\<open>long\<close> and
  a \<^verbatim>\<open>double\<close> (\<open>None\<close> when the cast throws), and \<open>read_matrix data old\<close> is the
  matrix left in \<^verbatim>\<open>next_layer.params\<close> by \<^verbatim>\<open>sin >> next_layer.params\<close>.
  An \<^verbatim>\<open>attribute_list\<close> is a list of key and value pairs whose keys are distinct.
\<close>

record casts =
  cast_int :: "string \<Rightarrow> int option"
  cast_long :: "string \<Rightarrow> int option"
  cast_double :: "string \<Rightarrow> real option"
  read_matrix :: "string \<Rightarrow> matrix \<Rightarrow> matrix"

type_synonym attribute_list = "(string \<times> string) list"

datatype event =
    Start_element string attribute_list
  | End_element string
  | Characters string
  | Processing_instruction string string

definition atts_get :: "attribute_list \<Rightarrow> string \<Rightarrow> error + string" where
  "atts_get atts key =
     (case map_of atts key of
        Some v \<Rightarrow> Inr v
      | None \<Rightarrow> Inl (Xml_attribute_list_error key))"

definition atts_long :: "casts \<Rightarrow> attribute_list \<Rightarrow> string \<Rightarrow> error + int" where
  "atts_long cs atts key =
     (case atts_get atts key of
        Inl e \<Rightarrow> Inl e
      | Inr v \<Rightarrow> (case cast_long cs v of None \<Rightarrow> Inl (String_cast_error v) | Some n \<Rightarrow> Inr n))"

definition atts_int :: "casts \<Rightarrow> attribute_list \<Rightarrow> string \<Rightarrow> error + int" where
  "atts_int cs atts key =
     (case atts_get atts key of
        Inl e \<Rightarrow> Inl e
      | Inr v \<Rightarrow> (case cast_int cs v of None \<Rightarrow> Inl (String_cast_error v) | Some n \<Rightarrow> Inr n))"

definition comp_tags_with_params :: "string list" where
  "comp_tags_with_params =
     [''fc'', ''fc_no_bias'', ''con'', ''affine_con'', ''affine_fc'', ''affine'', ''prelu'']"

text \<open>The member \<^verbatim>\<open>tag_id\<close> of the handler is \<open>dh_tag_id\<close> here: the layer record has a
  field of the same name. The stack \<^verbatim>\<open>current_tag\<close> is a list with its top at the head.\<close>

record doc_handler =
  layers :: "layer list"
  seen_first_tag :: bool
  next_layer :: layer
  current_tag :: "string list"
  dh_tag_id :: int

text \<open>A fresh handler after \<^verbatim>\<open>start_document\<close>.\<close>

definition start_document :: doc_handler where
  "start_document = \<lparr>layers = [], seen_first_tag = False, next_layer = new_layer,
                      current_tag = [], dh_tag_id = -1\<rparr>"

text \<open>The branch \<^verbatim>\<open>name == "layer"\<close> of \<^verbatim>\<open>start_element\<close>.\<close>

definition start_layer :: "casts \<Rightarrow> doc_handler \<Rightarrow> attribute_list \<Rightarrow> error + doc_handler" where
  "start_layer cs dh0 atts =
     (let dh = dh0\<lparr>next_layer := new_layer\<rparr> in
      case atts_get atts ''type'' of
        Inl e \<Rightarrow> Inl e
      | Inr ty \<Rightarrow>
          if ty = ''skip'' then
            (if length (layers dh) = 0 then
               Inl (Error ''A skip layer was found as the first layer, but the first layer should be an input layer.'')
             else
               (case atts_long cs atts ''id'' of
                  Inl e \<Rightarrow> Inl e
                | Inr v \<Rightarrow>
                    Inr (dh\<lparr>layers := butlast (layers dh) @ [(last (layers dh))\<lparr>skip_id := v\<rparr>]\<rparr>)))
          else if ty = ''tag'' then
            (case atts_long cs atts ''id'' of
               Inl e \<Rightarrow> Inl e
             | Inr v \<Rightarrow> Inr (dh\<lparr>dh_tag_id := v\<rparr>))
          else
            (case atts_int cs atts ''idx'' of
               Inl e \<Rightarrow> Inl e
             | Inr v \<Rightarrow>
                 (let nl = (next_layer dh)\<lparr>idx := v, type := ty\<rparr> in
                  if dh_tag_id dh \<noteq> -1
                  then Inr (dh\<lparr>next_layer := nl\<lparr>tag_id := dh_tag_id dh\<rparr>, dh_tag_id := -1\<rparr>)
                  else Inr (dh\<lparr>next_layer := nl\<rparr>))))"

text \<open>The loop that copies the attributes of the detail tag into the layer.\<close>

fun copy_attributes :: "casts \<Rightarrow> layer \<Rightarrow> attribute_list \<Rightarrow> error + layer" where
  "copy_attributes cs l [] = Inr l"
| "copy_attributes cs l ((k, v) # atts) =
     (case cast_double cs v of
        None \<Rightarrow> Inl (String_cast_error v)
      | Some d \<Rightarrow> copy_attributes cs (l\<lparr>attributes := (attributes l)(k \<mapsto> d)\<rparr>) atts)"

definition start_element :: "casts \<Rightarrow> doc_handler \<Rightarrow> string \<Rightarrow> attribute_list \<Rightarrow> error + doc_handler" where
  "start_element cs dh0 name atts =
     (if \<not> seen_first_tag dh0 \<and> name \<noteq> ''net'' then
        Inl (Error ''The top level XML tag must be a 'net' tag.'')
      else
        (let dh = dh0\<lparr>seen_first_tag := True\<rparr> in
         case
           (if name = ''layer'' then start_layer cs dh atts
            else if length (current_tag dh) \<noteq> 0 \<and> hd (current_tag dh) = ''layer'' then
              (case copy_attributes cs ((next_layer dh)\<lparr>detail_name := name\<rparr>) atts of
                 Inl e \<Rightarrow> Inl e
               | Inr l \<Rightarrow> Inr (dh\<lparr>next_layer := l\<rparr>))
            else Inr dh)
         of
           Inl e \<Rightarrow> Inl e
         | Inr dh' \<Rightarrow> Inr (dh'\<lparr>current_tag := name # current_tag dh'\<rparr>)))"

text \<open>Popping the empty stack is undefined behaviour in C++ and an error in the model.\<close>

definition end_element :: "doc_handler \<Rightarrow> string \<Rightarrow> error + doc_handler" where
  "end_element dh0 name =
     (case current_tag dh0 of
        [] \<Rightarrow> Inl (Requirement_violated ''stack'')
      | _ # st \<Rightarrow>
          (let dh = dh0\<lparr>current_tag := st\<rparr> in
           if name = ''layer'' \<and> length (type (next_layer dh)) \<noteq> 0
           then Inr (dh\<lparr>layers := layers dh @ [next_layer dh]\<rparr>)
           else Inr dh))"

definition characters :: "casts \<Rightarrow> doc_handler \<Rightarrow> string \<Rightarrow> doc_handler" where
  "characters cs dh data =
     (if length (current_tag dh) = 0 then dh
      else if hd (current_tag dh) \<in> set comp_tags_with_params then
        dh\<lparr>next_layer := (next_layer dh)\<lparr>params := read_matrix cs data (params (next_layer dh))\<rparr>\<rparr>
      else dh)"

fun handle_event :: "casts \<Rightarrow> doc_handler \<Rightarrow> event \<Rightarrow> error + doc_handler" where
  "handle_event cs dh (Start_element name atts) = start_element cs dh name atts"
| "handle_event cs dh (End_element name) = end_element dh name"
| "handle_event cs dh (Characters data) = Inr (characters cs dh data)"
| "handle_event cs dh (Processing_instruction target data) = Inr dh"

text \<open>\<^verbatim>\<open>parse_xml\<close>: the events of the document, in order, until one of them throws.\<close>

fun feed_events :: "casts \<Rightarrow> doc_handler \<Rightarrow> event list \<Rightarrow> error + doc_handler" where
  "feed_events cs dh [] = Inr dh"
| "feed_events cs dh (e # es) =
     (case handle_event cs dh e of
        Inl x \<Rightarrow> Inl x
      | Inr dh' \<Rightarrow> feed_events cs dh' es)"

definition parse_xml :: "casts \<Rightarrow> event list \<Rightarrow> error + doc_handler" where
  "parse_xml cs evs = feed_events cs start_document evs"

definition parse_dlib_xml :: "casts \<Rightarrow> event list \<Rightarrow> error + layer list" where
  "parse_dlib_xml cs evs =
     (case parse_xml cs evs of
        Inl e \<Rightarrow> Inl e
      | Inr dh \<Rightarrow>
          if length (layers dh) = 0 then Inl (Error ''No layers found in XML file!'')
          else if type (last (layers dh)) \<noteq> ''input'' then
            Inl (Error ''The network in the XML file is missing an input layer!'')
          else Inr (layers dh))"

subsection \<open>Matrix expressions\<close>

text \<open>
  \<^verbatim>\<open>range\<close>, \<^verbatim>\<open>rowm\<close> and \<^verbatim>\<open>trans\<close> belong to dlib's matrix library, which is not
  among the sources; the spec names the blocks they build (``all rows except \<dots>'',
  ``transposed'') and the model follows the contracts that the library documents. The
  names \<open>range\<close> and \<open>trans\<close> are taken in HOL, hence the suffix.
\<close>

text \<open>Modelled from the spec: \<^verbatim>\<open>range(s,e)\<close> is the sequence \<open>s, s+1, \<dots>, e\<close> when
  \<open>s \<le> e\<close> and the descending sequence \<open>s, s-1, \<dots>, e\<close> otherwise; it has
  \<open>|e - s| + 1\<close> entries and is never empty.\<close>

definition range_m :: "int \<Rightarrow> int \<Rightarrow> int list" where
  "range_m s e =
     (if s \<le> e then map (\<lambda>i. s + int i) [0..<nat (e - s + 1)]
      else map (\<lambda>i. s - int i) [0..<nat (s - e + 1)])"

text \<open>Modelled from the spec: \<^verbatim>\<open>rowm(m,rows)\<close> requires \<open>0 \<le> r < m.nr()\<close> of every row
  index \<open>r\<close> and is the matrix of those rows of \<open>m\<close>, in the order of \<open>rows\<close>. Outside
  the requirement the library fails an assertion or reads out of bounds; the model reports
  an error.\<close>

definition rowm :: "matrix \<Rightarrow> int list \<Rightarrow> error + matrix" where
  "rowm m rows =
     (if list_all (\<lambda>r. 0 \<le> r \<and> r < int (nr m)) rows
      then Inr (map (\<lambda>r. m ! nat r) rows)
      else Inl (Requirement_violated ''rowm''))"

text \<open>Modelled from the spec: \<^verbatim>\<open>rowm(m,row)\<close> with a single row index, under the same
  requirement.\<close>

definition rowm_single :: "matrix \<Rightarrow> int \<Rightarrow> error + matrix" where
  "rowm_single m r =
     (if 0 \<le> r \<and> r < int (nr m) then Inr [m ! nat r]
      else Inl (Requirement_violated ''rowm''))"

text \<open>Modelled from the spec: \<^verbatim>\<open>trans(m)\<close>, the transpose: row \<open>c\<close> of the result is
  column \<open>c\<close> of \<open>m\<close>.\<close>

definition trans_m :: "matrix \<Rightarrow> matrix" where
  "trans_m m = map (\<lambda>c. map (\<lambda>r. r ! c) m) [0..<nc m]"

text \<open>The conversion of a \<^verbatim>\<open>double\<close> to a \<^verbatim>\<open>long\<close> truncates toward zero.\<close>

definition to_long :: "real \<Rightarrow> int" where
  "to_long x = (if 0 \<le> x then \<lfloor>x\<rfloor> else \<lceil>x\<rceil>)"

subsection \<open>The generated text\<close>

text \<open>
  The text written to the output stream is a list of tokens, one for each operand of
  \<^verbatim>\<open><<\<close>: a piece of text or a number (the decimal rendering of a \<^verbatim>\<open>double\<close> is left
  out of the model). A computation that writes and may throw yields the tokens written and
  the error raised, if any. The unit is the statement: a statement that throws
  contributes no token (before C++17 the operands of one \<^verbatim>\<open><<\<close> chain are evaluated in
  an unspecified order).
\<close>

datatype tok = Text string | Number real

type_synonym out = "tok list \<times> error option"

definition written :: "out \<Rightarrow> tok list" where
  "written r = fst r"

definition raised :: "out \<Rightarrow> error option" where
  "raised r = snd r"

definition say :: "tok list \<Rightarrow> out" where
  "say ts = (ts, None)"

definition throw :: "error \<Rightarrow> out" where
  "throw e = ([], Some e)"

definition stmt :: "error + tok list \<Rightarrow> out" where
  "stmt r = (case r of Inl e \<Rightarrow> throw e | Inr ts \<Rightarrow> say ts)"

definition seq :: "out \<Rightarrow> out \<Rightarrow> out" where
  "seq a b = (case snd a of Some e \<Rightarrow> a | None \<Rightarrow> (fst a @ fst b, snd b))"

fun seqs :: "out list \<Rightarrow> out" where
  "seqs [] = say []"
| "seqs (a # as) = seq a (seqs as)"

definition print_as_np_array :: "matrix \<Rightarrow> tok list" where
  "print_as_np_array m =
     [Text ''np.array([''] @ concat (map (\<lambda>x. [Number x, Text '','']) (concat m)) @
     [Text ''], dtype='float32')'']"

subsection \<open>Parameter relayout\<close>

text \<open>The matrices that the body of the second loop computes for one layer, in the order
  of their parameter slots: \<open>weights\<close> and \<open>biases\<close>, or \<open>gamma\<close> and \<open>beta\<close>.\<close>

definition layer_blocks :: "layer \<Rightarrow> error + matrix list" where
  "layer_blocks l =
     (if detail_name l = ''con'' then
        (case attribute l ''num_filters'' of
           Inl e \<Rightarrow> Inl e
         | Inr v \<Rightarrow>
             (let num_filters = to_long v; sz = int (msize (params l)) in
              case rowm (params l) (range_m 0 (sz - num_filters - 1)) of
                Inl e \<Rightarrow> Inl e
              | Inr w \<Rightarrow>
                  (case rowm (params l) (range_m (sz - num_filters) (sz - 1)) of
                     Inl e \<Rightarrow> Inl e
                   | Inr b \<Rightarrow> Inr [trans_m w, trans_m b])))
      else if detail_name l = ''fc'' then
        (case rowm (params l) (range_m 0 (int (nr (params l)) - 2)) of
           Inl e \<Rightarrow> Inl e
         | Inr w \<Rightarrow>
             (case rowm_single (params l) (int (nr (params l)) - 1) of
                Inl e \<Rightarrow> Inl e
              | Inr b \<Rightarrow> Inr [trans_m w, b]))
      else if detail_name l = ''fc_no_bias'' then Inr [trans_m (params l)]
      else if detail_name l = ''affine_con'' \<or> detail_name l = ''affine_fc'' then
        (let dims = int (msize (params l)) div 2 in
         case rowm (params l) (range_m 0 (dims - 1)) of
           Inl e \<Rightarrow> Inl e
         | Inr g \<Rightarrow>
             (case rowm (params l) (range_m dims (2 * dims - 1)) of
                Inl e \<Rightarrow> Inl e
              | Inr b \<Rightarrow> Inr [trans_m g, trans_m b]))
      else Inr [])"

text \<open>The three statements that write one block into parameter slot \<open>k\<close>.\<close>

definition set_param :: "string \<Rightarrow> nat \<Rightarrow> matrix \<Rightarrow> tok list" where
  "set_param name k m =
     [Text ''    p = ''] @ print_as_np_array m @ [Text '';\<newline>''] @
     [Text (''    p.shape = net.params['' @ quote), Text name,
      Text (quote @ ''][''  @ to_string (int k) @ ''].data.shape;\<newline>'')] @
     [Text (''    net.params['' @ quote), Text name,
      Text (quote @ ''][''  @ to_string (int k) @ ''].data[:] = p;\<newline>'')]"

definition set_layer_weights :: "layer \<Rightarrow> out" where
  "set_layer_weights l =
     (case layer_blocks l of
        Inl e \<Rightarrow> throw e
      | Inr ms \<Rightarrow>
          say (concat (map (\<lambda>(k, m). set_param (caffe_layer_name l) k m) (enumerate 0 ms))))"

text \<open>The number of array elements in a piece of generated text.\<close>

definition count_numbers :: "tok list \<Rightarrow> nat" where
  "count_numbers ts = length (filter (\<lambda>t. case t of Number _ \<Rightarrow> True | Text _ \<Rightarrow> False) ts)"


subsection \<open>Layer translation\<close>

definition endl :: tok where
  "endl = Text ''\<newline>''"

text \<open>The statement that opens a declaration: the name of the layer, the caffe layer
  kind and the name of the layer that feeds it.\<close>

definition open_declaration :: "layer list \<Rightarrow> nat \<Rightarrow> string \<Rightarrow> error + tok list" where
  "open_declaration rs i kind =
     (case find_input_layer_caffe_name rs i of
        Inl e \<Rightarrow> Inl e
      | Inr src \<Rightarrow> Inr [Text ''    n.'', Text (caffe_layer_name (rs ! i)), Text kind, Text src])"

text \<open>A statement \<^verbatim>\<open>fout << label << i->attribute(key)\<close>.\<close>

definition put_attribute :: "string \<Rightarrow> layer \<Rightarrow> string \<Rightarrow> error + tok list" where
  "put_attribute label l key =
     (case attribute l key of
        Inl e \<Rightarrow> Inl e
      | Inr v \<Rightarrow> Inr [Text label, Number v])"

definition pooling_error :: error where
  "pooling_error = Error (''dlib and caffe implement pooling with non-zero padding differently, so you can't convert a '' @ ''network with such pooling layers.'')"

definition batch_norm_error :: error where
  "batch_norm_error = Error (''Conversion from dlib's batch norm layers to caffe's isn't supported.  Instead, '' @ ''you should put your network into 'test mode' by switching batch norm layers to affine layers.'')"

definition no_known_transformation :: "string \<Rightarrow> error" where
  "no_known_transformation name = Error (''No known transformation from dlib's '' @ name @ '' layer to caffe.'')"

text \<open>The kernel of a pooling layer: \<^verbatim>\<open>if (i->attribute("nc")==0) \<dots> else \<dots>\<close>.\<close>

definition pooling_kernel :: "layer \<Rightarrow> out" where
  "pooling_kernel l =
     (case attribute l ''nc'' of
        Inl e \<Rightarrow> throw e
      | Inr v \<Rightarrow>
          if v = 0 then say [Text '', global_pooling=True'']
          else seqs [stmt (put_attribute '', kernel_w='' l ''nc''),
                     stmt (put_attribute '', kernel_h='' l ''nr'')])"

text \<open>The test \<^verbatim>\<open>attribute("padding_x") != 0 || attribute("padding_y") != 0\<close>; the
  second attribute is read only when the first is zero.\<close>

definition pooling_padding :: "layer \<Rightarrow> out" where
  "pooling_padding l =
     (case attribute l ''padding_x'' of
        Inl e \<Rightarrow> throw e
      | Inr px \<Rightarrow>
          if px \<noteq> 0 then throw pooling_error
          else
            (case attribute l ''padding_y'' of
               Inl e \<Rightarrow> throw e
             | Inr py \<Rightarrow> if py \<noteq> 0 then throw pooling_error else say []))"

definition pooling :: "layer list \<Rightarrow> nat \<Rightarrow> string \<Rightarrow> out" where
  "pooling rs i method =
     (let l = rs ! i in
      seqs [stmt (open_declaration rs i '' = L.Pooling(n.''),
            say [Text method],
            pooling_kernel l,
            pooling_padding l,
            stmt (put_attribute '', stride_w='' l ''stride_x''),
            stmt (put_attribute '', stride_h='' l ''stride_y''),
            stmt (put_attribute '', pad_w='' l ''padding_x''),
            stmt (put_attribute '', pad_h='' l ''padding_y''),
            say [Text '');\<newline>'']])"

text \<open>The second operand of \<open>add_prev\<close>:
  \<^verbatim>\<open>fout << ", n." << find_layer_caffe_name(i, i->attribute("tag"))\<close>.\<close>

definition add_prev_operand :: "layer list \<Rightarrow> nat \<Rightarrow> error + tok list" where
  "add_prev_operand rs i =
     (case attribute (rs ! i) ''tag'' of
        Inl e \<Rightarrow> Inl e
      | Inr v \<Rightarrow>
          (case find_layer_caffe_name rs i (to_long v) of
             Inl e \<Rightarrow> Inl e
           | Inr name \<Rightarrow> Inr [Text '', n.'', Text name]))"

text \<open>The body of the first loop for the layer at iterator \<open>i\<close>, after the test that
  skips loss and input layers.\<close>

definition translate_layer :: "layer list \<Rightarrow> nat \<Rightarrow> out" where
  "translate_layer rs i =
     (let l = rs ! i in
      if detail_name l = ''con'' then
        seqs [stmt (open_declaration rs i '' = L.Convolution(n.''),
              stmt (put_attribute '', num_output='' l ''num_filters''),
              stmt (put_attribute '', kernel_w='' l ''nc''),
              stmt (put_attribute '', kernel_h='' l ''nr''),
              stmt (put_attribute '', stride_w='' l ''stride_x''),
              stmt (put_attribute '', stride_h='' l ''stride_y''),
              stmt (put_attribute '', pad_w='' l ''padding_x''),
              stmt (put_attribute '', pad_h='' l ''padding_y''),
              say [Text '');\<newline>'']]
      else if detail_name l = ''relu'' then
        seqs [stmt (open_declaration rs i '' = L.ReLU(n.''),
              say [Text '');\<newline>'']]
      else if detail_name l = ''max_pool'' then pooling rs i '', pool=P.Pooling.MAX''
      else if detail_name l = ''avg_pool'' then pooling rs i '', pool=P.Pooling.AVE''
      else if detail_name l = ''fc'' then
        seqs [stmt (open_declaration rs i '' = L.InnerProduct(n.''),
              stmt (put_attribute '', num_output='' l ''num_outputs''),
              say [Text '', bias_term=True''],
              say [Text '');\<newline>'']]
      else if detail_name l = ''fc_no_bias'' then
        seqs [stmt (open_declaration rs i '' = L.InnerProduct(n.''),
              stmt (put_attribute '', num_output='' l ''num_outputs''),
              say [Text '', bias_term=False''],
              say [Text '');\<newline>'']]
      else if detail_name l = ''bn_con'' \<or> detail_name l = ''bn_fc'' then throw batch_norm_error
      else if detail_name l = ''affine_con'' then
        seqs [stmt (open_declaration rs i '' = L.Scale(n.''),
              say [Text '', axis=1''],
              say [Text '', bias_term=True''],
              say [Text '');\<newline>'']]
      else if detail_name l = ''affine_fc'' then
        seqs [stmt (open_declaration rs i '' = L.Scale(n.''),
              say [Text '', axis=3''],
              say [Text '', bias_term=True''],
              say [Text '');\<newline>'']]
      else if detail_name l = ''add_prev'' then
        seqs [stmt (open_declaration rs i '' = L.Eltwise(n.''),
              stmt (add_prev_operand rs i),
              say [Text '', operation=P.Eltwise.SUM''],
              say [Text '');\<newline>'']]
      else throw (no_known_transformation (detail_name l)))"

subsection \<open>The conversion\<close>

definition default_size_warning :: string where
  "default_size_warning = '' #WARNING, the source dlib network didn't commit to a specific input size, so we put 28 here as a default.''"

definition preamble :: "tok list" where
  "preamble =
     [Text ''import caffe '', endl,
      Text ''from caffe import layers as L, params as P'', endl,
      Text ''import numpy as np'', endl,
      Text ''\<newline># Input tensor dimensions'', endl,
      Text ''batch_size = 1;'', endl]"

text \<open>The input dimensions, from the detail name of \<^verbatim>\<open>layers.back()\<close>.\<close>

definition input_dimensions :: "layer \<Rightarrow> out" where
  "input_dimensions l =
     (if detail_name l = ''input_rgb_image'' then
        say [Text (''input_nr = 28;'' @ default_size_warning), endl,
             Text (''input_nc = 28;'' @ default_size_warning), endl,
             Text ''input_k = 3;'', endl]
      else if detail_name l = ''input_rgb_image_sized'' then
        seqs [stmt (put_attribute ''input_nr = '' l ''nr''), say [Text '';'', endl],
              stmt (put_attribute ''input_nc = '' l ''nc''), say [Text '';'', endl],
              say [Text ''input_k = 3;'', endl]]
      else if detail_name l = ''input'' then
        say [Text (''input_nr = 28;'' @ default_size_warning), endl,
             Text (''input_nc = 28;'' @ default_size_warning), endl,
             Text ''input_k = 1;'', endl]
      else throw (no_known_transformation (detail_name l)))"

definition netspec_header :: "tok list" where
  "netspec_header =
     [endl,
      Text ''def make_netspec():'', endl,
      Text (''    # For reference, the only '' @ [CHR 0x22] @ ''documentation'' @ [CHR 0x22] @ '' about caffe layer parameters seems to be this page:\<newline>''),
      Text ''    # https://github.com/BVLC/caffe/blob/master/src/caffe/proto/caffe.proto\<newline>'', endl,
      Text ''    n = caffe.NetSpec(); '', endl,
      Text ''    n.data,n.label = L.MemoryData(batch_size=batch_size, channels=input_k, height=input_nr, width=input_nc, ntop=2)'', endl]"

definition netspec_footer :: "tok list" where
  "netspec_footer =
     [Text ''    return n.to_proto();\<newline>\<newline>'', endl,
      Text ''def save_as_caffe_model(def_file, weights_file):\<newline>'',
      Text ''    with open(def_file, 'w') as f: f.write(str(make_netspec()));\<newline>'',
      Text ''    net = caffe.Net(def_file, caffe.TEST);\<newline>'',
      Text ''    set_network_weights(net);\<newline>'',
      Text ''    net.save(weights_file);\<newline>\<newline>'',
      Text ''def set_network_weights(net):\<newline>'',
      Text ''    # populate network parameters\<newline>'']"

text \<open>The two loops run over the reverse iterators from \<^verbatim>\<open>rbegin()\<close> to \<^verbatim>\<open>rend()\<close>
  and skip the loss and input layers.\<close>

definition skipped :: "layer \<Rightarrow> bool" where
  "skipped l = (type l = ''loss'' \<or> type l = ''input'')"

definition make_netspec_layers :: "layer list \<Rightarrow> out" where
  "make_netspec_layers rs =
     seqs (map (\<lambda>i. if skipped (rs ! i) then say [] else translate_layer rs i) [0..<length rs])"

definition set_network_weights_layers :: "layer list \<Rightarrow> out" where
  "set_network_weights_layers rs =
     seqs (map (\<lambda>i. if skipped (rs ! i) then say [] else set_layer_weights (rs ! i)) [0..<length rs])"

text \<open>The function after \<^verbatim>\<open>parse_dlib_xml\<close> has returned the list \<open>ls\<close> of layers.\<close>

definition convert_layers :: "layer list \<Rightarrow> out" where
  "convert_layers ls =
     (let rs = rev ls in
      seqs [say preamble,
            input_dimensions (last ls),
            say netspec_header,
            make_netspec_layers rs,
            say netspec_footer,
            set_network_weights_layers rs])"

text \<open>
  \<^verbatim>\<open>convert_dlib_xml_to_cafffe_python_code\<close>. The output stream is opened, and with it
  the output file is created or emptied, before the document is parsed; \<open>written\<close> of
  the result is the content of the output file when the function returns or throws, and
  \<open>raised\<close> is the error thrown, if any. The name of the output file and the message on
  the terminal are left out.
\<close>

definition convert_dlib_xml_to_cafffe_python_code :: "casts \<Rightarrow> event list \<Rightarrow> out" where
  "convert_dlib_xml_to_cafffe_python_code cs evs =
     (case parse_dlib_xml cs evs of
        Inl e \<Rightarrow> throw e
      | Inr ls \<Rightarrow> convert_layers ls)"


text \<open>The events that open a \<open>layer\<close> element: a genuine layer, a tag marker or a skip
  marker.\<close>

definition opens_layer :: "event \<Rightarrow> bool" where
  "opens_layer ev = (case ev of Start_element name atts \<Rightarrow> name = ''layer'' | _ \<Rightarrow> False)"


subsection \<open>Example documents\<close>

text \<open>The casts of the examples read the numerals that the example documents use, and
  one matrix text: a column of four numbers.\<close>

definition example_numerals :: "(string \<times> int) list" where
  "example_numerals = [(''0'', 0), (''1'', 1), (''2'', 2), (''3'', 3), (''4'', 4), (''5'', 5), (''6'', 6)]"

definition example_casts :: casts where
  "example_casts =
     \<lparr>cast_int = map_of example_numerals,
      cast_long = map_of example_numerals,
      cast_double = (\<lambda>s. map_option real_of_int (map_of example_numerals s)),
      read_matrix = (\<lambda>data old. if data = ''1 2 3 4'' then [[1], [2], [3], [4]] else old)\<rparr>"

definition layer_events :: "string \<Rightarrow> string \<Rightarrow> string \<Rightarrow> attribute_list \<Rightarrow> event list" where
  "layer_events i ty detail atts =
     [Start_element ''layer'' [(''idx'', i), (''type'', ty)],
      Start_element detail atts, End_element detail,
      End_element ''layer'']"

definition marker_events :: "string \<Rightarrow> string \<Rightarrow> string \<Rightarrow> event list" where
  "marker_events i ty ident =
     [Start_element ''layer'' [(''idx'', i), (''type'', ty), (''id'', ident)],
      End_element ''layer'']"

text \<open>The network \<open>loss, relu, skip1, con, tag1, max_pool, input\<close>, from the output to
  the input.\<close>

definition example_doc :: "event list" where
  "example_doc =
     [Start_element ''net'' []] @
     layer_events ''0'' ''loss'' ''loss_multiclass_log'' [] @
     layer_events ''1'' ''comp'' ''relu'' [] @
     marker_events ''2'' ''skip'' ''1'' @
     layer_events ''3'' ''comp'' ''con'' [(''num_filters'', ''2'')] @
     marker_events ''4'' ''tag'' ''1'' @
     layer_events ''5'' ''comp'' ''max_pool'' [(''nc'', ''0'')] @
     layer_events ''6'' ''input'' ''input_rgb_image'' [] @
     [End_element ''net'']"

text \<open>The same network with the tag on the input layer.\<close>

definition example_doc_tagged_input :: "event list" where
  "example_doc_tagged_input =
     [Start_element ''net'' []] @
     layer_events ''0'' ''loss'' ''loss_multiclass_log'' [] @
     layer_events ''1'' ''comp'' ''relu'' [] @
     marker_events ''2'' ''skip'' ''1'' @
     layer_events ''3'' ''comp'' ''con'' [(''num_filters'', ''2'')] @
     marker_events ''4'' ''tag'' ''1'' @
     layer_events ''5'' ''input'' ''input_rgb_image'' [] @
     [End_element ''net'']"

text \<open>A document with no layer, and one with a loss layer only.\<close>

definition example_doc_empty :: "event list" where
  "example_doc_empty = [Start_element ''net'' [], End_element ''net'']"

definition example_doc_no_input :: "event list" where
  "example_doc_no_input =
     [Start_element ''net'' []] @
     layer_events ''0'' ''loss'' ''loss_multiclass_log'' [] @
     [End_element ''net'']"

text \<open>The layer lists of \<open>example_doc\<close> and \<open>example_doc_tagged_input\<close>.\<close>

definition example_layers :: "layer list" where
  "example_layers =
     [\<lparr>type = ''loss'', idx = 0, detail_name = ''loss_multiclass_log'', attributes = Map.empty,
        params = [], tag_id = -1, skip_id = -1\<rparr>,
      \<lparr>type = ''comp'', idx = 1, detail_name = ''relu'', attributes = Map.empty,
        params = [], tag_id = -1, skip_id = 1\<rparr>,
      \<lparr>type = ''comp'', idx = 3, detail_name = ''con'', attributes = [''num_filters'' \<mapsto> 2],
        params = [], tag_id = -1, skip_id = -1\<rparr>,
      \<lparr>type = ''comp'', idx = 5, detail_name = ''max_pool'', attributes = [''nc'' \<mapsto> 0],
        params = [], tag_id = 1, skip_id = -1\<rparr>,
      \<lparr>type = ''input'', idx = 6, detail_name = ''input_rgb_image'', attributes = Map.empty,
        params = [], tag_id = -1, skip_id = -1\<rparr>]"

definition example_layers_tagged_input :: "layer list" where
  "example_layers_tagged_input =
     [\<lparr>type = ''loss'', idx = 0, detail_name = ''loss_multiclass_log'', attributes = Map.empty,
        params = [], tag_id = -1, skip_id = -1\<rparr>,
      \<lparr>type = ''comp'', idx = 1, detail_name = ''relu'', attributes = Map.empty,
        params = [], tag_id = -1, skip_id = 1\<rparr>,
      \<lparr>type = ''comp'', idx = 3, detail_name = ''con'', attributes = [''num_filters'' \<mapsto> 2],
        params = [], tag_id = -1, skip_id = -1\<rparr>,
      \<lparr>type = ''input'', idx = 5, detail_name = ''input_rgb_image'', attributes = Map.empty,
        params = [], tag_id = 1, skip_id = -1\<rparr>]"


text \<open>Layer records with parameters.\<close>

definition example_con :: layer where
  "example_con =
     \<lparr>type = ''comp'', idx = 3, detail_name = ''con'', attributes = [''num_filters'' \<mapsto> 2],
      params = [[1], [2], [3], [4], [5]], tag_id = -1, skip_id = -1\<rparr>"

definition example_con_square :: layer where
  "example_con_square =
     \<lparr>type = ''comp'', idx = 3, detail_name = ''con'', attributes = [''num_filters'' \<mapsto> 1],
      params = [[1, 2], [3, 4]], tag_id = -1, skip_id = -1\<rparr>"

definition example_fc :: layer where
  "example_fc =
     \<lparr>type = ''comp'', idx = 1, detail_name = ''fc'', attributes = [''num_outputs'' \<mapsto> 2],
      params = [[1, 2], [3, 4], [5, 6]], tag_id = -1, skip_id = -1\<rparr>"

definition example_fc_one_row :: layer where
  "example_fc_one_row =
     \<lparr>type = ''comp'', idx = 1, detail_name = ''fc'', attributes = [''num_outputs'' \<mapsto> 2],
      params = [[1, 2]], tag_id = -1, skip_id = -1\<rparr>"

definition example_affine_odd :: layer where
  "example_affine_odd =
     \<lparr>type = ''comp'', idx = 2, detail_name = ''affine_con'', attributes = Map.empty,
      params = [[1], [2], [3]], tag_id = -1, skip_id = -1\<rparr>"

text \<open>A document whose input layer is an image pyramid, and two networks with a pooling
  layer: one with every attribute of the pooling layer, one without the strides.\<close>

definition example_doc_pyramid :: "event list" where
  "example_doc_pyramid =
     [Start_element ''net'' []] @
     layer_events ''0'' ''loss'' ''loss_mmod'' [] @
     layer_events ''1'' ''comp'' ''relu'' [] @
     layer_events ''2'' ''input'' ''input_rgb_image_pyramid'' [] @
     [End_element ''net'']"

definition example_layers_pyramid :: "layer list" where
  "example_layers_pyramid =
     [\<lparr>type = ''loss'', idx = 0, detail_name = ''loss_mmod'', attributes = Map.empty,
        params = [], tag_id = -1, skip_id = -1\<rparr>,
      \<lparr>type = ''comp'', idx = 1, detail_name = ''relu'', attributes = Map.empty,
        params = [], tag_id = -1, skip_id = -1\<rparr>,
      \<lparr>type = ''input'', idx = 2, detail_name = ''input_rgb_image_pyramid'', attributes = Map.empty,
        params = [], tag_id = -1, skip_id = -1\<rparr>]"

definition example_input :: layer where
  "example_input =
     \<lparr>type = ''input'', idx = 2, detail_name = ''input_rgb_image'', attributes = Map.empty,
      params = [], tag_id = -1, skip_id = -1\<rparr>"

definition example_pool :: "layer list" where
  "example_pool =
     [\<lparr>type = ''comp'', idx = 1, detail_name = ''max_pool'',
        attributes = [''nr'' \<mapsto> 0, ''nc'' \<mapsto> 0, ''stride_y'' \<mapsto> 2, ''stride_x'' \<mapsto> 2,
                      ''padding_y'' \<mapsto> 0, ''padding_x'' \<mapsto> 0],
        params = [], tag_id = -1, skip_id = -1\<rparr>,
      example_input]"

definition example_pool_no_stride :: "layer list" where
  "example_pool_no_stride =
     [\<lparr>type = ''comp'', idx = 1, detail_name = ''max_pool'',
        attributes = [''nr'' \<mapsto> 0, ''nc'' \<mapsto> 0, ''padding_y'' \<mapsto> 0, ''padding_x'' \<mapsto> 0],
        params = [], tag_id = -1, skip_id = -1\<rparr>,
      example_input]"

definition example_pool_padded :: "layer list" where
  "example_pool_padded =
     [\<lparr>type = ''comp'', idx = 1, detail_name = ''avg_pool'',
        attributes = [''nr'' \<mapsto> 3, ''nc'' \<mapsto> 3, ''stride_y'' \<mapsto> 1, ''stride_x'' \<mapsto> 1,
                      ''padding_y'' \<mapsto> 1, ''padding_x'' \<mapsto> 1],
        params = [], tag_id = -1, skip_id = -1\<rparr>,
      example_input]"

text \<open>A document with two tag markers in a row and a tag marker after the input layer.\<close>

definition example_doc_tags :: "event list" where
  "example_doc_tags =
     [Start_element ''net'' []] @
     layer_events ''0'' ''loss'' ''loss_multiclass_log'' [] @
     marker_events ''1'' ''tag'' ''1'' @
     marker_events ''2'' ''tag'' ''2'' @
     layer_events ''3'' ''comp'' ''relu'' [] @
     layer_events ''4'' ''comp'' ''relu'' [] @
     layer_events ''5'' ''input'' ''input'' [] @
     marker_events ''6'' ''tag'' ''3'' @
     [End_element ''net'']"

text \<open>A handler inside the \<open>net\<close> element with the tag id 1 pending.\<close>

definition example_handler :: doc_handler where
  "example_handler =
     \<lparr>layers = [], seen_first_tag = True, next_layer = new_layer,
      current_tag = [''net''], dh_tag_id = 1\<rparr>"


section \<open>Properties\<close>

subsection \<open>Evaluating the examples\<close>

lemmas handler_defs = parse_dlib_xml_def parse_xml_def start_document_def start_element_def
  start_layer_def end_element_def characters_def atts_get_def atts_long_def atts_int_def
  new_layer_def example_casts_def example_numerals_def layer_events_def marker_events_def
  comp_tags_with_params_def

lemmas name_defs = caffe_layer_name_def to_string_def nat_digits.simps

lemmas resolver_defs = find_input_layer_caffe_name_def find_layer_caffe_name_def deref_def
  riter_def skip_error_def

lemma parse_example_doc:
  "parse_dlib_xml example_casts example_doc = Inr example_layers"
  by (simp add: handler_defs example_doc_def example_layers_def)

lemma parse_example_doc_tagged_input:
  "parse_dlib_xml example_casts example_doc_tagged_input = Inr example_layers_tagged_input"
  by (simp add: handler_defs example_doc_tagged_input_def example_layers_tagged_input_def)

subsection \<open>The parser's post-conditions\<close>

lemma parse_dlib_xml_Inr:
  "parse_dlib_xml cs evs = Inr ls \<Longrightarrow> ls \<noteq> [] \<and> type (last ls) = ''input''"
  by (auto simp: parse_dlib_xml_def split: sum.splits if_splits)

text \<open>
  Claim C6. After the events of the document have been handled, \<open>parse_dlib_xml\<close> raises
  ``No layers found'' when the list of layers is empty and ``missing an input layer''
  when the type of its last record is not \<open>input\<close>; otherwise it returns the list. So
  every list it returns is non-empty and ends with a record of type \<open>input\<close>.
\<close>

theorem parse_dlib_xml_postconditions:
  "(parse_xml cs evs = Inr dh \<and> layers dh = [] \<longrightarrow>
      parse_dlib_xml cs evs = Inl (Error ''No layers found in XML file!'')) \<and>
   (parse_xml cs evs = Inr dh \<and> layers dh \<noteq> [] \<and> type (last (layers dh)) \<noteq> ''input'' \<longrightarrow>
      parse_dlib_xml cs evs = Inl (Error ''The network in the XML file is missing an input layer!'')) \<and>
   (parse_xml cs evs = Inr dh \<and> layers dh \<noteq> [] \<and> type (last (layers dh)) = ''input'' \<longrightarrow>
      parse_dlib_xml cs evs = Inr (layers dh)) \<and>
   (parse_dlib_xml cs evs = Inr ls \<longrightarrow> ls \<noteq> [] \<and> type (last ls) = ''input'')"
  by (auto simp: parse_dlib_xml_def split: sum.splits if_splits)

theorem parse_dlib_xml_postconditions_witness:
  "(\<exists>dh. parse_xml example_casts example_doc_empty = Inr dh \<and> layers dh = [] \<and>
      parse_dlib_xml example_casts example_doc_empty = Inl (Error ''No layers found in XML file!'')) \<and>
   (\<exists>dh. parse_xml example_casts example_doc_no_input = Inr dh \<and> layers dh \<noteq> [] \<and>
      type (last (layers dh)) \<noteq> ''input'' \<and>
      parse_dlib_xml example_casts example_doc_no_input =
        Inl (Error ''The network in the XML file is missing an input layer!'')) \<and>
   (\<exists>dh. parse_xml example_casts example_doc = Inr dh \<and> layers dh \<noteq> [] \<and>
      type (last (layers dh)) = ''input'' \<and>
      parse_dlib_xml example_casts example_doc = Inr (layers dh)) \<and>
   parse_dlib_xml example_casts example_doc = Inr example_layers \<and>
   example_layers \<noteq> [] \<and> type (last example_layers) = ''input''"
proof -
  obtain d1 where d1: "parse_xml example_casts example_doc_empty = Inr d1" "layers d1 = []"
    by (simp add: handler_defs example_doc_empty_def)
  obtain d2 where d2: "parse_xml example_casts example_doc_no_input = Inr d2"
      "layers d2 \<noteq> []" "type (last (layers d2)) \<noteq> ''input''"
    by (simp add: handler_defs example_doc_no_input_def)
  obtain d3 where d3: "parse_xml example_casts example_doc = Inr d3"
      "layers d3 \<noteq> []" "type (last (layers d3)) = ''input''"
    by (simp add: handler_defs example_doc_def)
  note p = parse_example_doc
  from d1 parse_dlib_xml_postconditions [of example_casts example_doc_empty d1]
  have c1: "parse_dlib_xml example_casts example_doc_empty = Inl (Error ''No layers found in XML file!'')"
    by blast
  from d2 parse_dlib_xml_postconditions [of example_casts example_doc_no_input d2]
  have c2: "parse_dlib_xml example_casts example_doc_no_input =
      Inl (Error ''The network in the XML file is missing an input layer!'')"
    by blast
  from d3 parse_dlib_xml_postconditions [of example_casts example_doc d3]
  have c3: "parse_dlib_xml example_casts example_doc = Inr (layers d3)"
    by blast
  from p parse_dlib_xml_postconditions [of example_casts example_doc d3 example_layers]
  have c4: "example_layers \<noteq> [] \<and> type (last example_layers) = ''input''"
    by blast
  from d1 d2 d3 c1 c2 c3 c4 p show ?thesis by blast
qed

subsection \<open>The reference resolver\<close>

lemma find_tagged_scan:
  "i \<le> length rs \<Longrightarrow>
   find_tagged rs i t =
     (case List.find (\<lambda>l. tag_id l = t \<or> type l = ''input'') (rev (take i rs)) of
        None \<Rightarrow> Inl (Requirement_violated ''iterator'')
      | Some l \<Rightarrow> if tag_id l = t then Inr (caffe_layer_name l) else Inl skip_error)"
proof (induction i)
  case 0
  then show ?case by simp
next
  case (Suc i)
  then have "take (Suc i) rs = take i rs @ [rs ! i]"
    by (simp add: take_Suc_conv_app_nth)
  with Suc show ?case
    by (simp add: deref_def)
qed

lemma rev_take_riter:
  "k < length ls \<Longrightarrow> rev (take (riter ls k) (rev ls)) = drop (Suc k) ls"
  by (simp add: riter_def take_rev)

lemma deref_riter:
  "k < length ls \<Longrightarrow> deref (rev ls) (riter ls k) = Inr (ls ! k)"
  by (simp add: deref_def riter_def rev_nth)

lemma find_tagged_stored:
  assumes "k < length ls"
  shows "find_tagged (rev ls) (riter ls k) t =
     (case List.find (\<lambda>l. tag_id l = t \<or> type l = ''input'') (drop (Suc k) ls) of
        None \<Rightarrow> Inl (Requirement_violated ''iterator'')
      | Some l \<Rightarrow> if tag_id l = t then Inr (caffe_layer_name l) else Inl skip_error)"
proof -
  have "riter ls k \<le> length (rev ls)" by (simp add: riter_def)
  then show ?thesis
    using assms by (simp add: find_tagged_scan rev_take_riter)
qed

lemma not_last_position:
  assumes "ls \<noteq> []" and "type (last ls) = ''input''" and "k < length ls"
    and "type (ls ! k) \<noteq> ''input''"
  shows "Suc k < length ls"
proof -
  have "k \<noteq> length ls - 1"
    using assms by (auto simp: last_conv_nth)
  with assms(3) show ?thesis by arith
qed

text \<open>
  Claim C1. Let \<open>ls\<close> be a list returned by the parser and \<open>k\<close> the position of a record
  that is not the input record and has \<open>skip_id = t\<close>, \<open>t \<noteq> -1\<close>. The scan goes from
  \<open>k\<close> toward the input end of the stored list and stops at the first record \<open>l\<close> that
  carries \<open>tag_id = t\<close> or has type \<open>input\<close>; there is always one. The resolver returns
  the generated name of \<open>l\<close> when \<open>l\<close> carries the tag, and raises the ``skip back to a
  non-existing layer'' error exactly when it does not, that is when the scan has reached
  an input record without finding the tag.
\<close>

theorem find_input_layer_caffe_name_skip:
  assumes "parse_dlib_xml cs evs = Inr ls" and "k < length ls"
    and "type (ls ! k) \<noteq> ''input''" and "skip_id (ls ! k) = t" and "t \<noteq> -1"
  shows "\<exists>l. List.find (\<lambda>l. tag_id l = t \<or> type l = ''input'') (drop (Suc k) ls) = Some l \<and>
             find_input_layer_caffe_name (rev ls) (riter ls k) =
               (if tag_id l = t then Inr (caffe_layer_name l) else Inl skip_error)"
proof -
  from assms(1) have ne: "ls \<noteq> []" and inp: "type (last ls) = ''input''"
    using parse_dlib_xml_Inr by blast+
  have "Suc k < length ls"
    using not_last_position [OF ne inp assms(2,3)] .
  then have "last ls \<in> set (drop (Suc k) ls)"
    by (metis drop_eq_Nil last_drop last_in_set not_le)
  with inp obtain l where f: "List.find (\<lambda>l. tag_id l = t \<or> type l = ''input'') (drop (Suc k) ls) = Some l"
    by (cases "List.find (\<lambda>l. tag_id l = t \<or> type l = ''input'') (drop (Suc k) ls)")
       (auto simp: find_None_iff)
  have "find_input_layer_caffe_name (rev ls) (riter ls k) = find_tagged (rev ls) (riter ls k) t"
    using assms by (simp add: find_input_layer_caffe_name_def deref_riter find_layer_caffe_name_def)
  also have "\<dots> = (if tag_id l = t then Inr (caffe_layer_name l) else Inl skip_error)"
    using assms(2) f by (simp add: find_tagged_stored)
  finally show ?thesis using f by blast
qed

theorem find_input_layer_caffe_name_skip_witness:
  "parse_dlib_xml example_casts example_doc = Inr example_layers \<and>
   (1::nat) < length example_layers \<and> type (example_layers ! 1) \<noteq> ''input'' \<and>
   skip_id (example_layers ! 1) = 1 \<and> (1::int) \<noteq> -1 \<and>
   find_input_layer_caffe_name (rev example_layers) (riter example_layers 1) = Inr ''max_pool5''"
proof -
  have h: "(1::nat) < length example_layers" "type (example_layers ! 1) \<noteq> ''input''"
      "skip_id (example_layers ! 1) = 1" "(1::int) \<noteq> -1"
    by (simp_all add: example_layers_def)
  from find_input_layer_caffe_name_skip [OF parse_example_doc h]
  have "find_input_layer_caffe_name (rev example_layers) (riter example_layers 1) = Inr ''max_pool5''"
    by (simp add: example_layers_def name_defs)
  with h parse_example_doc show ?thesis by simp
qed

text \<open>
  Claim C2, as amended. For a list \<open>ls\<close> returned by the parser and a translated record
  (neither input nor loss) at position \<open>k\<close> of the stored list with no \<open>skip_id\<close>, the
  resolver returns the generated name of the record at position \<open>k + 1\<close> of the stored
  list, the next one toward the input end: the layer that feeds it.
\<close>

theorem find_input_layer_caffe_name_no_skip:
  assumes "parse_dlib_xml cs evs = Inr ls" and "k < length ls"
    and "type (ls ! k) \<noteq> ''input''" and "type (ls ! k) \<noteq> ''loss''" and "skip_id (ls ! k) = -1"
  shows "Suc k < length ls \<and>
         find_input_layer_caffe_name (rev ls) (riter ls k) = Inr (caffe_layer_name (ls ! Suc k))"
proof -
  from assms(1) have ne: "ls \<noteq> []" and inp: "type (last ls) = ''input''"
    using parse_dlib_xml_Inr by blast+
  have k: "Suc k < length ls"
    using not_last_position [OF ne inp assms(2,3)] .
  have r: "riter ls k = Suc (riter ls (Suc k))"
    using k by (simp add: riter_def)
  have "find_input_layer_caffe_name (rev ls) (riter ls k) =
      find_layer_caffe_name (rev ls) (riter ls k) (- 1)"
    using assms by (simp add: find_input_layer_caffe_name_def deref_riter)
  also have "\<dots> =
      (case deref (rev ls) (riter ls (Suc k)) of Inl e \<Rightarrow> Inl e | Inr l \<Rightarrow> Inr (caffe_layer_name l))"
    by (simp add: find_layer_caffe_name_def r)
  also have "\<dots> = Inr (caffe_layer_name (ls ! Suc k))"
    using k by (simp add: deref_riter)
  finally show ?thesis using k by simp
qed

theorem find_input_layer_caffe_name_no_skip_witness:
  "parse_dlib_xml example_casts example_doc = Inr example_layers \<and>
   (2::nat) < length example_layers \<and> type (example_layers ! 2) \<noteq> ''input'' \<and>
   type (example_layers ! 2) \<noteq> ''loss'' \<and> skip_id (example_layers ! 2) = -1 \<and>
   find_input_layer_caffe_name (rev example_layers) (riter example_layers 2) = Inr ''max_pool5''"
proof -
  have h: "(2::nat) < length example_layers" "type (example_layers ! 2) \<noteq> ''input''"
      "type (example_layers ! 2) \<noteq> ''loss''" "skip_id (example_layers ! 2) = -1"
    by (simp_all add: example_layers_def)
  from find_input_layer_caffe_name_no_skip [OF parse_example_doc h]
  have "find_input_layer_caffe_name (rev example_layers) (riter example_layers 2) = Inr ''max_pool5''"
    by (simp add: example_layers_def name_defs)
  with h parse_example_doc show ?thesis by simp
qed

text \<open>The claim as the specification states it fails: for the convolution of the example,
  at position 2 of the stored list, the resolver does not return the name of the record
  at position 1.\<close>

theorem find_input_layer_caffe_name_no_skip_counterexample:
  "parse_dlib_xml example_casts example_doc = Inr example_layers \<and>
   type (example_layers ! 2) = ''comp'' \<and> skip_id (example_layers ! 2) = -1 \<and>
   caffe_layer_name (example_layers ! (2 - 1)) = ''relu1'' \<and>
   find_input_layer_caffe_name (rev example_layers) (riter example_layers 2) = Inr ''max_pool5'' \<and>
   find_input_layer_caffe_name (rev example_layers) (riter example_layers 2) \<noteq>
     Inr (caffe_layer_name (example_layers ! (2 - 1)))"
  using parse_example_doc by (simp add: example_layers_def resolver_defs name_defs)

text \<open>
  Claim C9. In the scan the tag is tested before the type: when the record at which the
  scan from position \<open>k\<close> stops is an input record that carries the sought tag, the
  resolver returns its generated name \<open>data\<close> and raises no error.
\<close>

theorem find_layer_caffe_name_tagged_input:
  assumes "k < length ls" and "t \<noteq> -1"
    and "List.find (\<lambda>l. tag_id l = t \<or> type l = ''input'') (drop (Suc k) ls) = Some l"
    and "type l = ''input''" and "tag_id l = t"
  shows "find_layer_caffe_name (rev ls) (riter ls k) t = Inr ''data''"
  using assms by (simp add: find_layer_caffe_name_def find_tagged_stored caffe_layer_name_def)

theorem find_layer_caffe_name_tagged_input_witness:
  "parse_dlib_xml example_casts example_doc_tagged_input = Inr example_layers_tagged_input \<and>
   (1::nat) < length example_layers_tagged_input \<and> (1::int) \<noteq> -1 \<and>
   List.find (\<lambda>l. tag_id l = 1 \<or> type l = ''input'') (drop (Suc 1) example_layers_tagged_input) =
     Some (last example_layers_tagged_input) \<and>
   type (last example_layers_tagged_input) = ''input'' \<and>
   tag_id (last example_layers_tagged_input) = 1 \<and>
   find_layer_caffe_name (rev example_layers_tagged_input) (riter example_layers_tagged_input 1) 1 =
     Inr ''data''"
proof -
  have h: "(1::nat) < length example_layers_tagged_input" "(1::int) \<noteq> -1"
    "List.find (\<lambda>l. tag_id l = 1 \<or> type l = ''input'') (drop (Suc 1) example_layers_tagged_input) =
     Some (last example_layers_tagged_input)"
    "type (last example_layers_tagged_input) = ''input''"
    "tag_id (last example_layers_tagged_input) = 1"
    by (simp_all add: example_layers_tagged_input_def)
  from find_layer_caffe_name_tagged_input [OF h] h parse_example_doc_tagged_input
  show ?thesis by simp
qed


subsection \<open>Parameter relayout\<close>

lemma take_drop_map_nth:
  "k + n \<le> length m \<Longrightarrow> map (\<lambda>i. m ! (k + i)) [0..<n] = take n (drop k m)"
  by (rule nth_equalityI) simp_all

lemma map_nth_shift:
  "0 \<le> s \<Longrightarrow>
   map (\<lambda>r. m ! nat r) (map (\<lambda>i. s + int i) [0..<N]) = map (\<lambda>i. m ! (nat s + i)) [0..<N]"
  by (simp add: nat_add_distrib)

text \<open>An ascending range inside the matrix picks a block of consecutive rows.\<close>

lemma rowm_range_m_up:
  assumes "0 \<le> s" and "s \<le> e" and "e < int (nr m)"
  shows "rowm m (range_m s e) = Inr (take (nat (e - s + 1)) (drop (nat s) m))"
proof -
  have r: "range_m s e = map (\<lambda>i. s + int i) [0..<nat (e - s + 1)]"
    using assms by (simp add: range_m_def)
  have ok: "list_all (\<lambda>r. 0 \<le> r \<and> r < int (nr m)) (range_m s e)"
    using assms unfolding r by (auto simp: list_all_iff)
  have "map (\<lambda>r. m ! nat r) (range_m s e) = map (\<lambda>i. m ! (nat s + i)) [0..<nat (e - s + 1)]"
    unfolding r using assms(1) by (rule map_nth_shift)
  also have "\<dots> = take (nat (e - s + 1)) (drop (nat s) m)"
  proof (rule take_drop_map_nth)
    show "nat s + nat (e - s + 1) \<le> length m"
      using assms unfolding nr_def by arith
  qed
  finally show ?thesis using ok by (simp add: rowm_def)
qed

lemma to_long_of_int: "to_long (real_of_int n) = n"
  by (simp add: to_long_def)

lemma msize_column: "nc m = 1 \<Longrightarrow> msize m = nr m"
  by (simp add: msize_def)



lemma range_m_ends: "s \<in> set (range_m s e)" "e \<in> set (range_m s e)"
proof -
  show "s \<in> set (range_m s e)"
    by (auto simp: range_m_def image_iff intro!: bexI [of _ 0])
  show "e \<in> set (range_m s e)"
  proof (cases "s \<le> e")
    case True
    then have "e = s + int (nat (e - s))" "nat (e - s) < nat (e - s + 1)" by simp_all
    then show ?thesis using True by (auto simp: range_m_def image_iff intro!: bexI [of _ "nat (e - s)"])
  next
    case False
    then have "e = s - int (nat (s - e))" "nat (s - e) < nat (s - e + 1)" by simp_all
    then show ?thesis using False by (auto simp: range_m_def image_iff intro!: bexI [of _ "nat (s - e)"])
  qed
qed

lemma rowm_range_m_Inr:
  assumes "rowm m (range_m s e) = Inr w"
  shows "0 \<le> s \<and> s < int (nr m) \<and> 0 \<le> e \<and> e < int (nr m)"
proof -
  from assms have "list_all (\<lambda>r. 0 \<le> r \<and> r < int (nr m)) (range_m s e)"
    by (auto simp: rowm_def split: if_splits)
  then show ?thesis
    using range_m_ends [where s=s and e=e] by (auto simp: list_all_iff)
qed

lemma column_of_small:
  assumes "msize p \<le> nr p" and "0 < msize p"
  shows "nc p = 1"
proof -
  have "nr p > 0" "nc p > 0" using assms(2) by (auto simp: msize_def)
  moreover have "nc p < 2"
  proof (rule ccontr)
    assume "\<not> nc p < 2"
    then have "nr p * 2 \<le> nr p * nc p" by simp
    with assms(1) \<open>nr p > 0\<close> show False by (simp add: msize_def)
  qed
  ultimately show ?thesis by arith
qed

lemma count_numbers_simps:
  "count_numbers [] = 0"
  "count_numbers (Text s # ts) = count_numbers ts"
  "count_numbers (Number x # ts) = Suc (count_numbers ts)"
  "count_numbers (xs @ ys) = count_numbers xs + count_numbers ys"
  by (simp_all add: count_numbers_def)

lemma count_numbers_elems: "count_numbers (concat (map (\<lambda>x. [Number x, Text s]) xs)) = length xs"
  by (induction xs) (simp_all add: count_numbers_simps)

lemma count_numbers_print: "count_numbers (print_as_np_array m) = length (concat m)"
  by (simp add: print_as_np_array_def count_numbers_simps count_numbers_elems)

lemma count_numbers_set_param: "count_numbers (set_param name k m) = length (concat m)"
  by (simp add: set_param_def count_numbers_simps count_numbers_print)

lemma length_concat_trans_m: "length (concat (trans_m m)) = nc m * nr m"
  by (simp add: trans_m_def length_concat o_def sum_list_triv nr_def)

lemma count_two_blocks:
  "layer_blocks l = Inr [a, b] \<Longrightarrow>
   count_numbers (written (set_layer_weights l)) = length (concat a) + length (concat b)"
  by (simp add: set_layer_weights_def written_def say_def enumerate_eq_zip
      count_numbers_simps count_numbers_set_param)

lemma count_one_block:
  "layer_blocks l = Inr [a] \<Longrightarrow>
   count_numbers (written (set_layer_weights l)) = length (concat a)"
  by (simp add: set_layer_weights_def written_def say_def enumerate_eq_zip
      count_numbers_simps count_numbers_set_param)



text \<open>The blocks of a convolution whose parameters are one column of more than
  \<open>num_filters\<close> rows.\<close>

lemma con_blocks:
  assumes "detail_name l = ''con''" and "attributes l ''num_filters'' = Some v"
    and "nc (params l) = 1" and "0 < to_long v" and "to_long v < int (nr (params l))"
  shows "layer_blocks l =
           Inr [trans_m (take (nr (params l) - nat (to_long v)) (params l)),
                trans_m (drop (nr (params l) - nat (to_long v)) (params l))]"
proof -
  let ?p = "params l" and ?n = "to_long v"
  have w: "rowm ?p (range_m 0 (int (nr ?p) - ?n - 1)) = Inr (take (nr ?p - nat ?n) ?p)"
  proof -
    have "nat (int (nr ?p) - ?n - 1 - 0 + 1) = nr ?p - nat ?n" using assms by arith
    with rowm_range_m_up [of 0 "int (nr ?p) - ?n - 1" ?p] assms show ?thesis by simp
  qed
  have b: "rowm ?p (range_m (int (nr ?p) - ?n) (int (nr ?p) - 1)) = Inr (drop (nr ?p - nat ?n) ?p)"
  proof -
    have "nat (int (nr ?p) - 1 - (int (nr ?p) - ?n) + 1) = nat ?n" by arith
    moreover have "nat (int (nr ?p) - ?n) = nr ?p - nat ?n" using assms by arith
    ultimately show ?thesis
      using rowm_range_m_up [of "int (nr ?p) - ?n" "int (nr ?p) - 1" ?p] assms
      by (simp add: nr_def)
  qed
  show ?thesis
    using assms w b by (simp add: layer_blocks_def attribute_def msize_column Let_def)
qed

lemma fc_blocks:
  assumes "detail_name l = ''fc''" and "2 \<le> nr (params l)"
  shows "layer_blocks l = Inr [trans_m (butlast (params l)), [last (params l)]]"
proof -
  let ?p = "params l"
  have "nat (int (nr ?p) - 2 - 0 + 1) = nr ?p - 1" using assms by arith
  with rowm_range_m_up [of 0 "int (nr ?p) - 2" ?p] assms
  have w: "rowm ?p (range_m 0 (int (nr ?p) - 2)) = Inr (butlast ?p)"
    by (simp add: butlast_conv_take nr_def)
  have "?p \<noteq> []" using assms by (auto simp: nr_def)
  then have "?p ! (nr ?p - 1) = last ?p"
    by (simp add: last_conv_nth nr_def)
  moreover have "nat (int (nr ?p) - 1) = nr ?p - 1" by arith
  ultimately have b: "rowm_single ?p (int (nr ?p) - 1) = Inr [last ?p]"
    using assms by (simp add: rowm_single_def)
  show ?thesis
    using assms w b by (simp add: layer_blocks_def)
qed

lemma affine_blocks:
  assumes "detail_name l = ''affine_con'' \<or> detail_name l = ''affine_fc''"
    and "nc (params l) = 1" and "2 \<le> nr (params l)"
  shows "layer_blocks l =
           Inr [trans_m (take (nr (params l) div 2) (params l)),
                trans_m (take (nr (params l) div 2) (drop (nr (params l) div 2) (params l)))]"
proof -
  let ?p = "params l"
  let ?d = "int (nr ?p) div 2"
  have d: "nat ?d = nr ?p div 2" "0 < ?d" "2 * ?d - 1 < int (nr ?p)" 
    using assms(3) by simp_all
  have g: "rowm ?p (range_m 0 (?d - 1)) = Inr (take (nr ?p div 2) ?p)"
    using rowm_range_m_up [of 0 "?d - 1" ?p] d by simp
  have "nat (2 * ?d - 1 - ?d + 1) = nr ?p div 2" using d by simp
  then have b: "rowm ?p (range_m ?d (2 * ?d - 1)) = Inr (take (nr ?p div 2) (drop (nr ?p div 2) ?p))"
    using rowm_range_m_up [of ?d "2 * ?d - 1" ?p] d by simp
  have ne: "detail_name l \<noteq> ''con''" "detail_name l \<noteq> ''fc''" "detail_name l \<noteq> ''fc_no_bias''"
    using assms(1) by auto
  show ?thesis
    using assms(1,2) g b ne by (simp add: layer_blocks_def msize_column Let_def)
qed



lemma nc_rows:
  assumes "rectangular p" and "set w \<subseteq> set p" and "w \<noteq> []"
  shows "nc w = nc p"
proof -
  from assms(3) obtain r rs where w: "w = r # rs" by (cases w) auto
  with assms(2) have "r \<in> set p" by auto
  with assms(1) have "length r = nc p" by (auto simp: rectangular_def list_all_iff)
  with w show ?thesis by (simp add: nc_def)
qed

lemma count_rows:
  assumes "rectangular p" and "set w \<subseteq> set p"
  shows "length (concat (trans_m w)) = nc p * length w"
proof (cases "w = []")
  case True
  then show ?thesis by (simp add: trans_m_def nc_def)
next
  case False
  with assms have "nc w = nc p" by (rule nc_rows)
  then show ?thesis by (simp add: length_concat_trans_m nr_def)
qed

lemma con_success:
  assumes "detail_name l = ''con''" and "layer_blocks l = Inr ms"
  shows "\<exists>v. attributes l ''num_filters'' = Some v \<and> nc (params l) = 1 \<and>
             0 < to_long v \<and> to_long v < int (nr (params l))"
proof -
  let ?p = "params l"
  from assms obtain v w b where v: "attributes l ''num_filters'' = Some v"
    and w: "rowm ?p (range_m 0 (int (msize ?p) - to_long v - 1)) = Inr w"
    and b: "rowm ?p (range_m (int (msize ?p) - to_long v) (int (msize ?p) - 1)) = Inr b"
    by (auto simp: layer_blocks_def attribute_def Let_def split: option.splits sum.splits)
  from rowm_range_m_Inr [OF w] have 1: "0 \<le> int (msize ?p) - to_long v - 1" by simp
  from rowm_range_m_Inr [OF b] have 2: "int (msize ?p) - to_long v < int (nr ?p)"
    and 3: "0 \<le> int (msize ?p) - 1" and 4: "int (msize ?p) - 1 < int (nr ?p)" by simp_all
  from 3 4 have "nc ?p = 1" by (intro column_of_small) simp_all
  then have "msize ?p = nr ?p" by (rule msize_column)
  with 1 2 v \<open>nc ?p = 1\<close> show ?thesis by simp
qed

lemma fc_success:
  assumes "detail_name l = ''fc''" and "layer_blocks l = Inr ms"
  shows "2 \<le> nr (params l)"
proof -
  let ?p = "params l"
  from assms obtain w where w: "rowm ?p (range_m 0 (int (nr ?p) - 2)) = Inr w"
    by (auto simp: layer_blocks_def split: sum.splits)
  from rowm_range_m_Inr [OF w] show ?thesis by simp
qed

lemma affine_success:
  assumes "detail_name l = ''affine_con'' \<or> detail_name l = ''affine_fc''"
    and "layer_blocks l = Inr ms"
  shows "nc (params l) = 1 \<and> 2 \<le> nr (params l)"
proof -
  let ?p = "params l"
  let ?d = "int (msize ?p) div 2"
  have ne: "detail_name l \<noteq> ''con''" "detail_name l \<noteq> ''fc''" "detail_name l \<noteq> ''fc_no_bias''"
    using assms(1) by auto
  from assms ne obtain g b where g: "rowm ?p (range_m 0 (?d - 1)) = Inr g"
    and b: "rowm ?p (range_m ?d (2 * ?d - 1)) = Inr b"
    by (auto simp: layer_blocks_def Let_def split: sum.splits)
  from rowm_range_m_Inr [OF g] have 1: "1 \<le> ?d" by simp
  from rowm_range_m_Inr [OF b] have 2: "2 * ?d - 1 < int (nr ?p)" by simp
  from 1 have m: "2 \<le> msize ?p" by simp
  then have pos: "0 < nr ?p" "0 < nc ?p" by (auto simp: msize_def intro: Nat.gr0I)
  have "nc ?p < 2"
  proof (rule ccontr)
    assume "\<not> nc ?p < 2"
    then have "nr ?p * 2 \<le> msize ?p" by (simp add: msize_def)
    then have "nr ?p \<le> msize ?p div 2" by simp
    then have "int (nr ?p) \<le> ?d" by (simp add: zdiv_int)
    with 2 pos show False by simp
  qed
  with pos have c: "nc ?p = 1" by simp
  with m show ?thesis by (simp add: msize_column)
qed


lemmas matrix_defs = layer_blocks_def attribute_def to_long_def msize_def nr_def nc_def
  range_m_def rowm_def rowm_single_def trans_m_def eval_nat_numeral

lemma two_blocks_written:
  "layer_blocks l = Inr [a, b] \<Longrightarrow>
   set_layer_weights l =
     say (set_param (caffe_layer_name l) 0 a @ set_param (caffe_layer_name l) 1 b)"
  by (simp add: set_layer_weights_def enumerate_eq_zip)

text \<open>
  Claim C3, as amended. For a convolution record whose \<open>num_filters\<close> attribute is \<open>n\<close>
  and whose parameters matrix is a single column of more than \<open>n\<close> rows, with
  \<open>0 < n\<close>, the relayout emits exactly two blocks: the rows of the matrix except the
  final \<open>n\<close>, transposed, into slot 0, and the final \<open>n\<close> rows, transposed, into
  slot 1.
\<close>

theorem con_relayout:
  assumes "detail_name l = ''con''" and "attributes l ''num_filters'' = Some (real_of_int n)"
    and "nc (params l) = 1" and "0 < n" and "n < int (nr (params l))"
  shows "layer_blocks l =
           Inr [trans_m (take (nr (params l) - nat n) (params l)),
                trans_m (drop (nr (params l) - nat n) (params l))] \<and>
         set_layer_weights l =
           say (set_param (caffe_layer_name l) 0 (trans_m (take (nr (params l) - nat n) (params l))) @
                set_param (caffe_layer_name l) 1 (trans_m (drop (nr (params l) - nat n) (params l))))"
proof -
  have "layer_blocks l =
           Inr [trans_m (take (nr (params l) - nat n) (params l)),
                trans_m (drop (nr (params l) - nat n) (params l))]"
    using con_blocks [OF assms(1,2,3)] assms(4,5) by (simp add: to_long_of_int)
  then show ?thesis by (simp add: two_blocks_written)
qed

theorem con_relayout_witness:
  "detail_name example_con = ''con'' \<and>
   attributes example_con ''num_filters'' = Some (real_of_int 2) \<and>
   nc (params example_con) = 1 \<and> (0::int) < 2 \<and> 2 < int (nr (params example_con)) \<and>
   layer_blocks example_con = Inr [[[1, 2, 3]], [[4, 5]]] \<and>
   written (set_layer_weights example_con) =
     set_param ''con3'' 0 [[1, 2, 3]] @ set_param ''con3'' 1 [[4, 5]] \<and>
   raised (set_layer_weights example_con) = None"
proof -
  have h: "detail_name example_con = ''con''"
      "attributes example_con ''num_filters'' = Some (real_of_int 2)"
      "nc (params example_con) = 1" "(0::int) < 2" "2 < int (nr (params example_con))"
    by (simp_all add: example_con_def nc_def nr_def)
  have "nr (params example_con) - nat 2 = 3"
    by (simp add: example_con_def nr_def)
  with con_relayout [OF h] h show ?thesis
    by (simp add: example_con_def trans_m_def nc_def name_defs say_def written_def raised_def
        eval_nat_numeral)
qed

text \<open>The claim as the specification states it fails on a parameters matrix with two
  columns, and on a column when \<open>num_filters\<close> is zero: the relayout asks for rows
  that the matrix does not have.\<close>

theorem con_relayout_counterexample:
  "detail_name example_con_square = ''con'' \<and>
   attributes example_con_square ''num_filters'' = Some 1 \<and>
   params example_con_square = [[1, 2], [3, 4]] \<and>
   range_m 0 (int (msize (params example_con_square)) - 1 - 1) = [0, 1, 2] \<and>
   layer_blocks example_con_square = Inl (Requirement_violated ''rowm'') \<and>
   layer_blocks example_con_square \<noteq>
     Inr [trans_m (take (nr (params example_con_square) - 1) (params example_con_square)),
          trans_m (drop (nr (params example_con_square) - 1) (params example_con_square))] \<and>
   layer_blocks (example_con\<lparr>attributes := [''num_filters'' \<mapsto> 0]\<rparr>) =
     Inl (Requirement_violated ''rowm'')"
  by (simp add: example_con_square_def example_con_def matrix_defs)

text \<open>
  Claim C5, as amended. For a fully-connected record with bias whose parameters matrix
  has at least two rows, the relayout emits the rows of the matrix except the last,
  transposed, into slot 0, and the last row as it is into slot 1.
\<close>

theorem fc_relayout:
  assumes "detail_name l = ''fc''" and "2 \<le> nr (params l)"
  shows "layer_blocks l = Inr [trans_m (butlast (params l)), [last (params l)]] \<and>
         set_layer_weights l =
           say (set_param (caffe_layer_name l) 0 (trans_m (butlast (params l))) @
                set_param (caffe_layer_name l) 1 [last (params l)])"
  using fc_blocks [OF assms] by (simp add: two_blocks_written)

theorem fc_relayout_witness:
  "detail_name example_fc = ''fc'' \<and> 2 \<le> nr (params example_fc) \<and>
   layer_blocks example_fc = Inr [[[1, 3], [2, 4]], [[5, 6]]] \<and>
   written (set_layer_weights example_fc) =
     set_param ''fc1'' 0 [[1, 3], [2, 4]] @ set_param ''fc1'' 1 [[5, 6]] \<and>
   raised (set_layer_weights example_fc) = None"
proof -
  have h: "detail_name example_fc = ''fc''" "2 \<le> nr (params example_fc)"
    by (simp_all add: example_fc_def nr_def)
  from fc_relayout [OF h] h show ?thesis
    by (simp add: example_fc_def trans_m_def nc_def name_defs say_def written_def raised_def
        eval_nat_numeral)
qed

text \<open>The claim as the specification states it fails on a parameters matrix with one row:
  the relayout asks for the rows \<open>0\<close> and \<open>-1\<close>.\<close>

theorem fc_relayout_counterexample:
  "detail_name example_fc_one_row = ''fc'' \<and> params example_fc_one_row = [[1, 2]] \<and>
   range_m 0 (int (nr (params example_fc_one_row)) - 2) = [0, -1] \<and>
   layer_blocks example_fc_one_row = Inl (Requirement_violated ''rowm'') \<and>
   layer_blocks example_fc_one_row \<noteq>
     Inr [trans_m (butlast (params example_fc_one_row)), [last (params example_fc_one_row)]]"
  by (simp add: example_fc_one_row_def matrix_defs)

text \<open>
  Claim C4, as amended. For a convolution, a fully-connected layer (with or without bias)
  or an affine layer whose relayout completes (every row it asks for exists), the number
  of array elements written for the layer is the number of elements of its parameters
  matrix, except that an affine layer gets twice the rounded-down half of that number:
  the same number exactly when it is even.
\<close>

theorem relayout_element_count:
  assumes "detail_name l \<in> {''con'', ''fc'', ''fc_no_bias'', ''affine_con'', ''affine_fc''}"
    and "rectangular (params l)" and "layer_blocks l = Inr ms"
  shows "count_numbers (written (set_layer_weights l)) =
           (if detail_name l = ''affine_con'' \<or> detail_name l = ''affine_fc''
            then 2 * (msize (params l) div 2) else msize (params l))"
proof -
  let ?p = "params l"
  consider (con) "detail_name l = ''con''" | (fc) "detail_name l = ''fc''"
    | (nb) "detail_name l = ''fc_no_bias''"
    | (aff) "detail_name l = ''affine_con'' \<or> detail_name l = ''affine_fc''"
    using assms(1) by auto
  then show ?thesis
  proof cases
    case con
    from con_success [OF con assms(3)] obtain v where v: "attributes l ''num_filters'' = Some v"
      and c: "nc ?p = 1" and n: "0 < to_long v" "to_long v < int (nr ?p)" by blast
    have "nr ?p - nat (to_long v) + nat (to_long v) = nr ?p" using n by arith
    then show ?thesis
      using con c n count_two_blocks [OF con_blocks [OF con v c n]] assms(2)
      by (simp add: count_rows set_take_subset set_drop_subset msize_column nr_def)
  next
    case fc
    from fc_success [OF fc assms(3)] have n: "2 \<le> nr ?p" .
    then have "?p \<noteq> []" by (auto simp: nr_def)
    then have "length (last ?p) = nc ?p"
      using assms(2) by (auto simp: rectangular_def list_all_iff)
    moreover have "set (butlast ?p) \<subseteq> set ?p" by (auto dest: in_set_butlastD)
    ultimately show ?thesis
      using fc n count_two_blocks [OF fc_blocks [OF fc n]] assms(2)
      by (simp add: count_rows msize_def nr_def algebra_simps)
  next
    case nb
    then have "layer_blocks l = Inr [trans_m ?p]" by (simp add: layer_blocks_def)
    from count_one_block [OF this] nb show ?thesis
      by (simp add: length_concat_trans_m msize_def)
  next
    case aff
    from affine_success [OF aff assms(3)] have c: "nc ?p = 1" and n: "2 \<le> nr ?p" by simp_all
    let ?g = "take (nr ?p div 2) ?p" and ?b = "take (nr ?p div 2) (drop (nr ?p div 2) ?p)"
    have "length ?p div 2 \<le> length ?p" "length ?p div 2 \<le> length ?p - length ?p div 2"
      by arith+
    then have len: "length ?g = nr ?p div 2" "length ?b = nr ?p div 2"
      unfolding nr_def by (simp_all add: min_absorb2)
    have sub: "set ?g \<subseteq> set ?p" "set ?b \<subseteq> set ?p"
      by (rule set_take_subset) (meson set_take_subset set_drop_subset subset_trans)
    have "length (concat (trans_m ?g)) = nr ?p div 2" "length (concat (trans_m ?b)) = nr ?p div 2"
      using count_rows [OF assms(2) sub(1)] count_rows [OF assms(2) sub(2)] c len by simp_all
    with count_two_blocks [OF affine_blocks [OF aff c n]] aff c show ?thesis
      by (simp add: msize_column)
  qed
qed


theorem relayout_element_count_witness:
  "detail_name example_con \<in> {''con'', ''fc'', ''fc_no_bias'', ''affine_con'', ''affine_fc''} \<and>
   rectangular (params example_con) \<and>
   layer_blocks example_con = Inr [[[1, 2, 3]], [[4, 5]]] \<and>
   count_numbers (written (set_layer_weights example_con)) = 5 \<and>
   msize (params example_con) = 5"
proof -
  have b: "layer_blocks example_con = Inr [[[1, 2, 3]], [[4, 5]]]"
    by (simp add: example_con_def matrix_defs)
  have h: "detail_name example_con \<in> {''con'', ''fc'', ''fc_no_bias'', ''affine_con'', ''affine_fc''}"
      "rectangular (params example_con)"
    by (simp_all add: example_con_def rectangular_def nc_def)
  have m: "msize (params example_con) = 5" "detail_name example_con = ''con''"
    by (simp_all add: example_con_def msize_def nr_def nc_def)
  from relayout_element_count [OF h b] h b m show ?thesis by simp
qed

text \<open>The claim as the specification states it fails on an affine layer with an odd
  number of parameters: of three elements, two are written. It also fails when the
  relayout does not complete: for a fully-connected layer with a single row of two
  elements, nothing is written.\<close>

theorem relayout_element_count_counterexample:
  "detail_name example_affine_odd = ''affine_con'' \<and>
   params example_affine_odd = [[1], [2], [3]] \<and>
   layer_blocks example_affine_odd = Inr [[[1]], [[2]]] \<and>
   raised (set_layer_weights example_affine_odd) = None \<and>
   count_numbers (written (set_layer_weights example_affine_odd)) = 2 \<and>
   msize (params example_affine_odd) = 3 \<and>
   raised (set_layer_weights example_fc_one_row) = Some (Requirement_violated ''rowm'') \<and>
   count_numbers (written (set_layer_weights example_fc_one_row)) = 0 \<and>
   msize (params example_fc_one_row) = 2"
proof -
  have b: "layer_blocks example_affine_odd = Inr [[[1]], [[2]]]"
    by (simp add: example_affine_odd_def matrix_defs)
  then have "set_layer_weights example_affine_odd =
      say (set_param (caffe_layer_name example_affine_odd) 0 [[1]] @
           set_param (caffe_layer_name example_affine_odd) 1 [[2]])"
    by (rule two_blocks_written)
  then have a: "raised (set_layer_weights example_affine_odd) = None"
      "count_numbers (written (set_layer_weights example_affine_odd)) = 2"
    by (simp_all add: say_def raised_def written_def count_numbers_simps count_numbers_set_param)
  have "layer_blocks example_fc_one_row = Inl (Requirement_violated ''rowm'')"
    by (simp add: example_fc_one_row_def matrix_defs)
  then have f: "raised (set_layer_weights example_fc_one_row) = Some (Requirement_violated ''rowm'')"
      "count_numbers (written (set_layer_weights example_fc_one_row)) = 0"
    by (simp_all add: set_layer_weights_def throw_def raised_def written_def count_numbers_simps)
  have m: "detail_name example_affine_odd = ''affine_con''"
      "params example_affine_odd = [[1], [2], [3]]"
      "msize (params example_affine_odd) = 3" "msize (params example_fc_one_row) = 2"
    by (simp_all add: example_affine_odd_def example_fc_one_row_def msize_def nr_def nc_def)
  from a b f m show ?thesis by simp
qed


subsection \<open>Translation and conversion\<close>


lemmas out_defs = seq_def stmt_def say_def throw_def written_def raised_def

lemma parse_example_doc_pyramid:
  "parse_dlib_xml example_casts example_doc_pyramid = Inr example_layers_pyramid"
  by (simp add: handler_defs example_doc_pyramid_def example_layers_pyramid_def)

text \<open>
  Claim C8, as amended. For a document that the parser accepts and whose last record,
  the input record, has a detail name other than \<open>input_rgb_image\<close>,
  \<open>input_rgb_image_sized\<close> and \<open>input\<close>, the conversion raises the ``No known
  transformation'' error that names this detail type; the output file has been created
  by then and holds the fixed preamble (the imports and the batch size), and nothing
  else is written to it.
\<close>

theorem unknown_input_rejected:
  assumes "parse_dlib_xml cs evs = Inr ls"
    and "detail_name (last ls) \<notin> {''input_rgb_image'', ''input_rgb_image_sized'', ''input''}"
  shows "raised (convert_dlib_xml_to_cafffe_python_code cs evs) =
           Some (no_known_transformation (detail_name (last ls))) \<and>
         written (convert_dlib_xml_to_cafffe_python_code cs evs) = preamble"
  using assms
  by (simp add: convert_dlib_xml_to_cafffe_python_code_def convert_layers_def
      input_dimensions_def out_defs)

theorem unknown_input_rejected_witness:
  "parse_dlib_xml example_casts example_doc_pyramid = Inr example_layers_pyramid \<and>
   detail_name (last example_layers_pyramid) \<notin> {''input_rgb_image'', ''input_rgb_image_sized'', ''input''} \<and>
   raised (convert_dlib_xml_to_cafffe_python_code example_casts example_doc_pyramid) =
     Some (Error ''No known transformation from dlib's input_rgb_image_pyramid layer to caffe.'') \<and>
   written (convert_dlib_xml_to_cafffe_python_code example_casts example_doc_pyramid) = preamble"
proof -
  have h: "detail_name (last example_layers_pyramid) \<notin>
      {''input_rgb_image'', ''input_rgb_image_sized'', ''input''}"
    by (simp add: example_layers_pyramid_def)
  have d: "detail_name (last example_layers_pyramid) = ''input_rgb_image_pyramid''"
    by (simp add: example_layers_pyramid_def)
  from unknown_input_rejected [OF parse_example_doc_pyramid h] h parse_example_doc_pyramid
  show ?thesis by (simp add: d no_known_transformation_def)
qed

text \<open>The claim as the specification states it fails: for the image pyramid the error
  is raised, but the output file has been written, with the preamble.\<close>

theorem unknown_input_rejected_counterexample:
  "parse_dlib_xml example_casts example_doc_pyramid = Inr example_layers_pyramid \<and>
   detail_name (last example_layers_pyramid) = ''input_rgb_image_pyramid'' \<and>
   written (convert_dlib_xml_to_cafffe_python_code example_casts example_doc_pyramid) =
     [Text ''import caffe '', endl,
      Text ''from caffe import layers as L, params as P'', endl,
      Text ''import numpy as np'', endl,
      Text ''\<newline># Input tensor dimensions'', endl,
      Text ''batch_size = 1;'', endl] \<and>
   written (convert_dlib_xml_to_cafffe_python_code example_casts example_doc_pyramid) \<noteq> []"
  using parse_example_doc_pyramid
  by (simp add: convert_dlib_xml_to_cafffe_python_code_def convert_layers_def
      input_dimensions_def out_defs example_layers_pyramid_def preamble_def)

lemma seq_say: "seq (say a) b = (a @ fst b, snd b)"
  by (simp add: seq_def say_def)

lemma seq_throw: "seq (throw e) b = throw e"
  by (simp add: seq_def throw_def)

lemmas pooling_defs = translate_layer_def pooling_def pooling_kernel_def pooling_padding_def
  open_declaration_def put_attribute_def attribute_def

text \<open>
  Claim C7, as amended. For a max-pool or avg-pool record whose input reference resolves
  and which has the attributes that the rule reads (\<open>nc\<close>, \<open>padding_x\<close>, \<open>padding_y\<close>,
  \<open>stride_x\<close>, \<open>stride_y\<close>, and \<open>nr\<close> when \<open>nc\<close> is not zero), the translation raises
  a fatal error if and only if \<open>padding_x\<close> or \<open>padding_y\<close> is not zero, and the error
  is the pooling error. When both are zero the declaration is written: with
  \<open>global_pooling=True\<close> and no kernel dimensions when \<open>nc\<close> is zero, with the kernel
  dimensions otherwise.
\<close>

theorem pooling_translation:
  assumes "(detail_name (rs ! i) = ''max_pool'' \<and> method = '', pool=P.Pooling.MAX'') \<or>
           (detail_name (rs ! i) = ''avg_pool'' \<and> method = '', pool=P.Pooling.AVE'')"
    and "find_input_layer_caffe_name rs i = Inr src"
    and "attributes (rs ! i) ''nc'' = Some kw"
    and "kw \<noteq> 0 \<Longrightarrow> attributes (rs ! i) ''nr'' = Some kh"
    and "attributes (rs ! i) ''padding_x'' = Some px"
    and "attributes (rs ! i) ''padding_y'' = Some py"
    and "attributes (rs ! i) ''stride_x'' = Some sx"
    and "attributes (rs ! i) ''stride_y'' = Some sy"
  shows "(raised (translate_layer rs i) \<noteq> None \<longleftrightarrow> px \<noteq> 0 \<or> py \<noteq> 0) \<and>
         (px \<noteq> 0 \<or> py \<noteq> 0 \<longrightarrow> raised (translate_layer rs i) = Some pooling_error) \<and>
         (px = 0 \<and> py = 0 \<longrightarrow>
            written (translate_layer rs i) =
              [Text ''    n.'', Text (caffe_layer_name (rs ! i)), Text '' = L.Pooling(n.'', Text src,
               Text method] @
              (if kw = 0 then [Text '', global_pooling=True'']
               else [Text '', kernel_w='', Number kw, Text '', kernel_h='', Number kh]) @
              [Text '', stride_w='', Number sx, Text '', stride_h='', Number sy,
               Text '', pad_w='', Number px, Text '', pad_h='', Number py, Text '');\<newline>''])"
proof -
  let ?l = "rs ! i"
  have t: "translate_layer rs i = pooling rs i method"
    using assms(1) by (auto simp: translate_layer_def)
  have o: "stmt (open_declaration rs i '' = L.Pooling(n.'') =
      say [Text ''    n.'', Text (caffe_layer_name ?l), Text '' = L.Pooling(n.'', Text src]"
    using assms(2) by (simp add: open_declaration_def stmt_def)
  have k: "pooling_kernel ?l =
      say (if kw = 0 then [Text '', global_pooling=True'']
           else [Text '', kernel_w='', Number kw, Text '', kernel_h='', Number kh])"
    using assms(3,4)
    by (simp add: pooling_kernel_def put_attribute_def attribute_def stmt_def seq_say) (simp add: say_def)
  have p: "pooling_padding ?l = (if px \<noteq> 0 \<or> py \<noteq> 0 then throw pooling_error else say [])"
    using assms(5,6) by (simp add: pooling_padding_def attribute_def)
  have s: "stmt (put_attribute '', stride_w='' ?l ''stride_x'') = say [Text '', stride_w='', Number sx]"
    "stmt (put_attribute '', stride_h='' ?l ''stride_y'') = say [Text '', stride_h='', Number sy]"
    "stmt (put_attribute '', pad_w='' ?l ''padding_x'') = say [Text '', pad_w='', Number px]"
    "stmt (put_attribute '', pad_h='' ?l ''padding_y'') = say [Text '', pad_h='', Number py]"
    using assms(5-8) by (simp_all add: put_attribute_def attribute_def stmt_def)
  show ?thesis
  proof (cases "px \<noteq> 0 \<or> py \<noteq> 0")
    case True
    then have "pooling rs i method =
        ([Text ''    n.'', Text (caffe_layer_name ?l), Text '' = L.Pooling(n.'', Text src,
          Text method] @
         (if kw = 0 then [Text '', global_pooling=True'']
          else [Text '', kernel_w='', Number kw, Text '', kernel_h='', Number kh]),
         Some pooling_error)"
      unfolding pooling_def Let_def o k p s by (simp add: seq_say seq_throw) (simp add: throw_def)
    with True t show ?thesis by (auto simp: raised_def)
  next
    case False
    then have "pooling rs i method =
        say ([Text ''    n.'', Text (caffe_layer_name ?l), Text '' = L.Pooling(n.'', Text src,
          Text method] @
         (if kw = 0 then [Text '', global_pooling=True'']
          else [Text '', kernel_w='', Number kw, Text '', kernel_h='', Number kh]) @
         [Text '', stride_w='', Number sx, Text '', stride_h='', Number sy,
          Text '', pad_w='', Number px, Text '', pad_h='', Number py, Text '');\<newline>''])"
      unfolding pooling_def Let_def o k p s by (simp add: seq_say) (simp add: say_def)
    with False t show ?thesis by (simp add: raised_def written_def say_def)
  qed
qed




theorem pooling_translation_witness:
  "detail_name (rev example_pool ! 1) = ''max_pool'' \<and>
   find_input_layer_caffe_name (rev example_pool) 1 = Inr ''data'' \<and>
   attributes (rev example_pool ! 1) ''nc'' = Some 0 \<and>
   attributes (rev example_pool ! 1) ''padding_x'' = Some 0 \<and>
   attributes (rev example_pool ! 1) ''padding_y'' = Some 0 \<and>
   attributes (rev example_pool ! 1) ''stride_x'' = Some 2 \<and>
   attributes (rev example_pool ! 1) ''stride_y'' = Some 2 \<and>
   raised (translate_layer (rev example_pool) 1) = None \<and>
   written (translate_layer (rev example_pool) 1) =
     [Text ''    n.'', Text ''max_pool1'', Text '' = L.Pooling(n.'', Text ''data'',
      Text '', pool=P.Pooling.MAX'', Text '', global_pooling=True'',
      Text '', stride_w='', Number 2, Text '', stride_h='', Number 2,
      Text '', pad_w='', Number 0, Text '', pad_h='', Number 0, Text '');\<newline>''] \<and>
   detail_name (rev example_pool_padded ! 1) = ''avg_pool'' \<and>
   attributes (rev example_pool_padded ! 1) ''nc'' = Some 3 \<and>
   attributes (rev example_pool_padded ! 1) ''nr'' = Some 3 \<and>
   attributes (rev example_pool_padded ! 1) ''padding_x'' = Some 1 \<and>
   raised (translate_layer (rev example_pool_padded) 1) = Some pooling_error"
proof -
  have a: "detail_name (rev example_pool ! 1) = ''max_pool'' \<and> '', pool=P.Pooling.MAX'' = '', pool=P.Pooling.MAX'' \<or>
      detail_name (rev example_pool ! 1) = ''avg_pool'' \<and> '', pool=P.Pooling.MAX'' = '', pool=P.Pooling.AVE''"
    and b: "find_input_layer_caffe_name (rev example_pool) 1 = Inr ''data''"
      "attributes (rev example_pool ! 1) ''nc'' = Some 0"
      "(0::real) \<noteq> 0 \<Longrightarrow> attributes (rev example_pool ! 1) ''nr'' = Some 0"
      "attributes (rev example_pool ! 1) ''padding_x'' = Some 0"
      "attributes (rev example_pool ! 1) ''padding_y'' = Some 0"
      "attributes (rev example_pool ! 1) ''stride_x'' = Some 2"
      "attributes (rev example_pool ! 1) ''stride_y'' = Some 2"
    by (simp_all add: example_pool_def example_input_def resolver_defs name_defs)
  have n: "caffe_layer_name (rev example_pool ! 1) = ''max_pool1''"
    by (simp add: example_pool_def name_defs)
  have c: "detail_name (rev example_pool_padded ! 1) = ''max_pool'' \<and> '', pool=P.Pooling.AVE'' = '', pool=P.Pooling.MAX'' \<or>
      detail_name (rev example_pool_padded ! 1) = ''avg_pool'' \<and> '', pool=P.Pooling.AVE'' = '', pool=P.Pooling.AVE''"
    and d: "find_input_layer_caffe_name (rev example_pool_padded) 1 = Inr ''data''"
      "attributes (rev example_pool_padded ! 1) ''nc'' = Some 3"
      "(3::real) \<noteq> 0 \<Longrightarrow> attributes (rev example_pool_padded ! 1) ''nr'' = Some 3"
      "attributes (rev example_pool_padded ! 1) ''padding_x'' = Some 1"
      "attributes (rev example_pool_padded ! 1) ''padding_y'' = Some 1"
      "attributes (rev example_pool_padded ! 1) ''stride_x'' = Some 1"
      "attributes (rev example_pool_padded ! 1) ''stride_y'' = Some 1"
    by (simp_all add: example_pool_padded_def example_input_def resolver_defs name_defs)
  have e: "detail_name (rev example_pool ! 1) = ''max_pool''"
    "detail_name (rev example_pool_padded ! 1) = ''avg_pool''"
    by (simp_all add: example_pool_def example_pool_padded_def)
  from pooling_translation [OF a b] pooling_translation [OF c d] b d e n
  show ?thesis by simp
qed

text \<open>The claim as the specification states it fails: a max-pool record with both
  paddings zero and no \<open>stride_x\<close> attribute raises a fatal error.\<close>

theorem pooling_translation_counterexample:
  "detail_name (rev example_pool_no_stride ! 1) = ''max_pool'' \<and>
   attributes (rev example_pool_no_stride ! 1) ''padding_x'' = Some 0 \<and>
   attributes (rev example_pool_no_stride ! 1) ''padding_y'' = Some 0 \<and>
   raised (translate_layer (rev example_pool_no_stride) 1) =
     Some (Error ''Layer doesn't have the requested attribute 'stride_x'.'')"
  by (simp add: example_pool_no_stride_def example_input_def pooling_defs out_defs
      resolver_defs name_defs quote_def)




subsection \<open>The pending tag id of the graph builder\<close>

lemma start_layer_tag:
  assumes "atts_get atts ''type'' = Inr ''tag''" and "atts_long cs atts ''id'' = Inr v"
  shows "start_layer cs dh atts = Inr (dh\<lparr>next_layer := new_layer, dh_tag_id := v\<rparr>)"
  using assms by (simp add: start_layer_def)

lemma start_layer_genuine:
  assumes "atts_get atts ''type'' = Inr ty" and "ty \<noteq> ''skip''" and "ty \<noteq> ''tag''"
    and "atts_int cs atts ''idx'' = Inr n"
  shows "start_layer cs dh atts =
           Inr (dh\<lparr>next_layer := new_layer\<lparr>idx := n, type := ty, tag_id := dh_tag_id dh\<rparr>,
                   dh_tag_id := -1\<rparr>)"
  using assms by (simp add: start_layer_def Let_def new_layer_def)

lemma copy_attributes_tag_id:
  "copy_attributes cs l atts = Inr l' \<Longrightarrow> tag_id l' = tag_id l"
  by (induction atts arbitrary: l) (auto split: option.splits)

lemma start_layer_skip_tag_id:
  assumes "atts_get atts ''type'' = Inr ''skip''" and "start_layer cs dh atts = Inr dh'"
  shows "dh_tag_id dh' = dh_tag_id dh"
  using assms by (auto simp: start_layer_def Let_def split: if_splits sum.splits)

text \<open>
  Claim C10. The handler holds one pending tag id, \<open>dh_tag_id\<close>. Inside the document
  (after the first tag has been seen):
  a tag marker sets the pending id to its own id, whatever was pending before;
  the opening of a genuine layer (its type is neither \<open>skip\<close> nor \<open>tag\<close>) gives the
  pending id to the record under construction and resets the pending id to \<open>-1\<close>;
  every event that does not open a layer element leaves the pending id and the tag of
  the record under construction as they are, and so does a skip marker for the pending
  id; and after the last event the pending id is not looked at: a document whose list of
  layers passes the two checks is accepted whatever is pending.
\<close>

theorem pending_tag_id:
  assumes "seen_first_tag dh"
  shows "(atts_get atts ''type'' = Inr ''tag'' \<and> atts_long cs atts ''id'' = Inr v \<longrightarrow>
            (\<exists>dh'. start_element cs dh ''layer'' atts = Inr dh' \<and> dh_tag_id dh' = v \<and>
                   layers dh' = layers dh \<and> type (next_layer dh') = [])) \<and>
         (atts_get atts ''type'' = Inr ty \<and> ty \<noteq> ''skip'' \<and> ty \<noteq> ''tag'' \<and>
          atts_int cs atts ''idx'' = Inr n \<longrightarrow>
            (\<exists>dh'. start_element cs dh ''layer'' atts = Inr dh' \<and>
                   tag_id (next_layer dh') = dh_tag_id dh \<and> dh_tag_id dh' = -1 \<and>
                   type (next_layer dh') = ty \<and> layers dh' = layers dh)) \<and>
         (handle_event cs dh ev = Inr dh1 \<and> \<not> opens_layer ev \<longrightarrow>
            dh_tag_id dh1 = dh_tag_id dh \<and> tag_id (next_layer dh1) = tag_id (next_layer dh)) \<and>
         (atts_get atts ''type'' = Inr ''skip'' \<and> start_element cs dh ''layer'' atts = Inr dh1 \<longrightarrow>
            dh_tag_id dh1 = dh_tag_id dh) \<and>
         (parse_xml cs evs = Inr dh2 \<and> layers dh2 \<noteq> [] \<and> type (last (layers dh2)) = ''input'' \<longrightarrow>
            parse_dlib_xml cs evs = Inr (layers dh2))"
proof (intro conjI impI)
  assume a: "atts_get atts ''type'' = Inr ''tag'' \<and> atts_long cs atts ''id'' = Inr v"
  then show "\<exists>dh'. start_element cs dh ''layer'' atts = Inr dh' \<and> dh_tag_id dh' = v \<and>
      layers dh' = layers dh \<and> type (next_layer dh') = []"
    using assms by (simp add: start_element_def start_layer_tag new_layer_def)
next
  assume a: "atts_get atts ''type'' = Inr ty \<and> ty \<noteq> ''skip'' \<and> ty \<noteq> ''tag'' \<and>
      atts_int cs atts ''idx'' = Inr n"
  then show "\<exists>dh'. start_element cs dh ''layer'' atts = Inr dh' \<and>
      tag_id (next_layer dh') = dh_tag_id dh \<and> dh_tag_id dh' = -1 \<and>
      type (next_layer dh') = ty \<and> layers dh' = layers dh"
    using assms by (simp add: start_element_def start_layer_genuine)
next
  assume a: "handle_event cs dh ev = Inr dh1 \<and> \<not> opens_layer ev"
  show "dh_tag_id dh1 = dh_tag_id dh"
  proof (cases ev)
    case (Start_element name a')
    with a assms show ?thesis
      by (auto simp: opens_layer_def start_element_def Let_def split: sum.splits if_splits)
  next
    case (End_element name)
    with a show ?thesis
      by (auto simp: end_element_def Let_def split: list.splits if_splits)
  next
    case (Characters d)
    with a show ?thesis by (auto simp: characters_def)
  next
    case (Processing_instruction t d)
    with a show ?thesis by auto
  qed
  show "tag_id (next_layer dh1) = tag_id (next_layer dh)"
  proof (cases ev)
    case (Start_element name a')
    with a assms show ?thesis
      by (auto simp: opens_layer_def start_element_def Let_def split: sum.splits if_splits
          dest: copy_attributes_tag_id)
  next
    case (End_element name)
    with a show ?thesis
      by (auto simp: end_element_def Let_def split: list.splits if_splits)
  next
    case (Characters d)
    with a show ?thesis by (auto simp: characters_def)
  next
    case (Processing_instruction t d)
    with a show ?thesis by auto
  qed
next
  assume "atts_get atts ''type'' = Inr ''skip'' \<and> start_element cs dh ''layer'' atts = Inr dh1"
  then show "dh_tag_id dh1 = dh_tag_id dh"
    using assms
    by (auto simp: start_element_def Let_def split: sum.splits dest: start_layer_skip_tag_id)
next
  assume "parse_xml cs evs = Inr dh2 \<and> layers dh2 \<noteq> [] \<and> type (last (layers dh2)) = ''input''"
  then show "parse_dlib_xml cs evs = Inr (layers dh2)"
    by (simp add: parse_dlib_xml_def)
qed



theorem pending_tag_id_witness:
  "seen_first_tag example_handler \<and> dh_tag_id example_handler = 1 \<and>
   (\<exists>dh'. start_element example_casts example_handler ''layer''
            [(''idx'', ''2''), (''type'', ''tag''), (''id'', ''2'')] = Inr dh' \<and>
          dh_tag_id dh' = 2 \<and> layers dh' = layers example_handler \<and> type (next_layer dh') = []) \<and>
   (\<exists>dh'. start_element example_casts example_handler ''layer''
            [(''idx'', ''3''), (''type'', ''comp'')] = Inr dh' \<and>
          tag_id (next_layer dh') = 1 \<and> dh_tag_id dh' = -1 \<and> type (next_layer dh') = ''comp'') \<and>
   (\<exists>dh1. handle_event example_casts example_handler (Characters ''1 2 3 4'') = Inr dh1 \<and>
          dh_tag_id dh1 = 1) \<and>
   (\<exists>dh1. start_element example_casts (example_handler\<lparr>layers := [example_input]\<rparr>) ''layer''
            [(''idx'', ''4''), (''type'', ''skip''), (''id'', ''5'')] = Inr dh1 \<and>
          dh_tag_id dh1 = 1) \<and>
   (\<exists>dh2. parse_xml example_casts example_doc_tags = Inr dh2 \<and> dh_tag_id dh2 = 3 \<and>
          map tag_id (layers dh2) = [-1, 2, -1, -1] \<and>
          parse_dlib_xml example_casts example_doc_tags = Inr (layers dh2))"
proof -
  let ?cs = example_casts and ?dh = example_handler
  let ?tag = "[(''idx'', ''2''), (''type'', ''tag''), (''id'', ''2'')]"
  let ?comp = "[(''idx'', ''3''), (''type'', ''comp'')]"
  let ?skip = "[(''idx'', ''4''), (''type'', ''skip''), (''id'', ''5'')]"
  have s: "seen_first_tag ?dh" "dh_tag_id ?dh = 1"
    "seen_first_tag (?dh\<lparr>layers := [example_input]\<rparr>)"
    by (simp_all add: example_handler_def)
  have t: "atts_get ?tag ''type'' = Inr ''tag'' \<and> atts_long ?cs ?tag ''id'' = Inr 2"
    by (simp add: handler_defs)
  have c: "atts_get ?comp ''type'' = Inr ''comp'' \<and> ''comp'' \<noteq> ''skip'' \<and> ''comp'' \<noteq> ''tag'' \<and>
      atts_int ?cs ?comp ''idx'' = Inr 3"
    by (simp add: handler_defs)
  obtain d1 where e: "handle_event ?cs ?dh (Characters ''1 2 3 4'') = Inr d1 \<and>
      \<not> opens_layer (Characters ''1 2 3 4'')"
    by (simp add: opens_layer_def)
  obtain d2 where k: "atts_get ?skip ''type'' = Inr ''skip'' \<and>
      start_element ?cs (?dh\<lparr>layers := [example_input]\<rparr>) ''layer'' ?skip = Inr d2"
    by (simp add: handler_defs example_handler_def)
  obtain d3 where p: "parse_xml ?cs example_doc_tags = Inr d3 \<and> layers d3 \<noteq> [] \<and>
      type (last (layers d3)) = ''input''" and q: "dh_tag_id d3 = 3"
      "map tag_id (layers d3) = [-1, 2, -1, -1]"
    by (simp add: handler_defs example_doc_tags_def)
  note th = pending_tag_id [OF s(1), of _ ?cs]
  from t th [of ?tag 2] have 1: "\<exists>dh'. start_element ?cs ?dh ''layer'' ?tag = Inr dh' \<and>
      dh_tag_id dh' = 2 \<and> layers dh' = layers ?dh \<and> type (next_layer dh') = []"
    by blast
  from c th [of ?comp _ "''comp''" 3] s(2) have 2: "\<exists>dh'. start_element ?cs ?dh ''layer'' ?comp = Inr dh' \<and>
      tag_id (next_layer dh') = 1 \<and> dh_tag_id dh' = -1 \<and> type (next_layer dh') = ''comp''"
    by fastforce
  from e th [of _ _ _ _ "Characters ''1 2 3 4''" d1] s(2)
  have 3: "\<exists>dh1. handle_event ?cs ?dh (Characters ''1 2 3 4'') = Inr dh1 \<and> dh_tag_id dh1 = 1"
    by fastforce
  from k pending_tag_id [OF s(3), of ?skip ?cs _ _ _ _ d2]
  have 4: "\<exists>dh1. start_element ?cs (?dh\<lparr>layers := [example_input]\<rparr>) ''layer'' ?skip = Inr dh1 \<and>
      dh_tag_id dh1 = 1"
    by (auto simp: example_handler_def)
  from p th [of _ _ _ _ _ _ example_doc_tags d3]
  have "parse_dlib_xml ?cs example_doc_tags = Inr (layers d3)" by blast
  with p q have 5: "\<exists>dh2. parse_xml ?cs example_doc_tags = Inr dh2 \<and> dh_tag_id dh2 = 3 \<and>
      map tag_id (layers dh2) = [-1, 2, -1, -1] \<and>
      parse_dlib_xml ?cs example_doc_tags = Inr (layers dh2)"
    by (intro exI [of _ d3] conjI) simp_all
  from s 1 2 3 4 5 show ?thesis by (intro conjI) assumption+
qed


end
